theory Spec2Isabelle
  imports Complex_Main
begin

section \<open>Numbers, errors and the data model\<close>

text \<open>
  The program is TypeScript on top of tf.js. A JavaScript \<open>number\<close> is modelled as an
  exact \<^typ>\<open>real\<close>: \<open>NaN\<close> and the infinities are not represented. The arithmetic
  of tf.js on tensors rounds every result to the precision of the tensor; the tensor
  operations below take that rounding as a parameter, so that the selection can be
  read over exact arithmetic and over float32. Pixel
  dimensions of DOM elements (\<open>image.width\<close>, \<open>video.height\<close>) are integers and are
  modelled as \<^typ>\<open>int\<close>. Wherever the program would leave the real numbers (a division
  by zero, an \<open>undefined\<close> array read) or where tf.js throws, the model returns an error
  value instead of a result.
\<close>

datatype error =
    TfAssertionError   \<comment> \<open>tf.js rejects the arguments of an operation and throws\<close>
  | OutsideModel       \<comment> \<open>the program goes on with \<open>undefined\<close>, \<open>NaN\<close> or an infinity\<close>

text \<open>\<open>type BoundingBox = [number, number, number, number]\<close>, corner format.\<close>

type_synonym BoundingBox = "real \<times> real \<times> real \<times> real"

text \<open>\<open>type Keypoint = [number, number, number]\<close>: x, y, confidence.\<close>

type_synonym Keypoint = "real \<times> real \<times> real"

record Prediction =
  box :: BoundingBox
  score :: real
  keypoints :: "Keypoint list"

record TransformParams =
  scale :: real
  xOffset :: real
  yOffset :: real
  originalWidth :: real
  originalHeight :: real

text \<open>
  What the program reads of an \<open>HTMLImageElement | HTMLVideoElement\<close>: its pixel
  dimensions. What it reads of the \<open>GraphModel\<close>:
  \<open>[modelHeight, modelWidth] = model.inputs[0].shape.slice(1, 3)\<close>.
\<close>

record SourceElement =
  width :: int
  height :: int

record GraphModel =
  modelHeight :: int
  modelWidth :: int

text \<open>
  The pixels of the processed image are produced by tf.js (\<open>fromPixels\<close>, \<open>pad\<close>,
  \<open>resizeBilinear\<close>) in floating point; the model keeps the shape of each tensor of the
  pipeline and the padding widths handed to \<open>pad\<close>, not the pixel values.
\<close>

record ProcessedImageResult =
  processedImage :: "int list"
  transformParams :: TransformParams


section \<open>Coordinate unmapping (index.ts, lines 62--107)\<close>

definition transformCoordinate :: "real \<Rightarrow> real \<Rightarrow> real \<Rightarrow> real" where
  "transformCoordinate coord scl offset = coord * scl - offset"

definition scalePrediction :: "Prediction \<Rightarrow> TransformParams \<Rightarrow> Prediction" where
  "scalePrediction prediction tp =
     (case box prediction of (modelX1, modelY1, modelX2, modelY2) \<Rightarrow>
        \<lparr> box = (transformCoordinate modelX1 (scale tp) (xOffset tp),
                 transformCoordinate modelY1 (scale tp) (yOffset tp),
                 transformCoordinate modelX2 (scale tp) (xOffset tp),
                 transformCoordinate modelY2 (scale tp) (yOffset tp)),
          score = score prediction,
          keypoints =
            map (\<lambda>(x, y, confidence).
                   (transformCoordinate x (scale tp) (xOffset tp),
                    transformCoordinate y (scale tp) (yOffset tp),
                    confidence))
                (keypoints prediction) \<rparr>)"


section \<open>Letterboxing (index.ts, lines 234--292)\<close>

text \<open>
  The local constants of \<open>processImageWithLetterboxing\<close>, each as a function of the
  source element. \<open>Math.floor(t / 2)\<close> is the floor of the real quotient.
\<close>

definition targetSquareSize :: "SourceElement \<Rightarrow> int" where
  "targetSquareSize source = max (width source) (height source)"

definition totalWidthPadding :: "SourceElement \<Rightarrow> int" where
  "totalWidthPadding source = targetSquareSize source - width source"

definition totalHeightPadding :: "SourceElement \<Rightarrow> int" where
  "totalHeightPadding source = targetSquareSize source - height source"

definition leftPadding :: "SourceElement \<Rightarrow> int" where
  "leftPadding source = \<lfloor>real_of_int (totalWidthPadding source) / 2\<rfloor>"

definition rightPadding :: "SourceElement \<Rightarrow> int" where
  "rightPadding source = totalWidthPadding source - leftPadding source"

definition topPadding :: "SourceElement \<Rightarrow> int" where
  "topPadding source = \<lfloor>real_of_int (totalHeightPadding source) / 2\<rfloor>"

definition bottomPadding :: "SourceElement \<Rightarrow> int" where
  "bottomPadding source = totalHeightPadding source - topPadding source"

text \<open>
  \<open>tensor.pad([[top, bottom], [left, right], [0, 0]])\<close> on a tensor of shape
  \<open>[height, width, channels]\<close>: each axis grows by its two padding widths.
\<close>

definition pad_shape :: "int list \<Rightarrow> (int \<times> int) list \<Rightarrow> int list" where
  "pad_shape shp paddings = map (\<lambda>(d, (before, after)). before + d + after) (zip shp paddings)"

text \<open>
  \<open>scale = targetSquareSize / modelWidth\<close>: with \<open>modelWidth = 0\<close> JavaScript yields an
  infinity or \<open>NaN\<close>, which is no real number.
\<close>

definition processImageWithLetterboxing ::
  "SourceElement \<Rightarrow> GraphModel \<Rightarrow> error + ProcessedImageResult" where
  "processImageWithLetterboxing source model =
     (let originalImageTensor = [height source, width source, 3];
          letterboxedImage =
            pad_shape originalImageTensor
              [(topPadding source, bottomPadding source),
               (leftPadding source, rightPadding source),
               (0, 0)];
          resizedImage = [modelHeight model, modelWidth model, letterboxedImage ! 2];
          batchedImage = 1 # resizedImage
      in if modelWidth model = 0 then Inl OutsideModel
         else Inr \<lparr> processedImage = batchedImage,
                    transformParams =
                      \<lparr> scale = real_of_int (targetSquareSize source) / real_of_int (modelWidth model),
                        xOffset = real_of_int (leftPadding source),
                        yOffset = real_of_int (topPadding source),
                        originalWidth = real_of_int (width source),
                        originalHeight = real_of_int (height source) \<rparr> \<rparr>)"

text \<open>
  Following the spec's words (section 8, round trip): the forward letterbox map of a
  source-space coordinate into model space adds the axis offset and divides by the
  scale. The program has no function for this direction; it pads and resizes pixels.
\<close>

definition specForwardTransform :: "real \<Rightarrow> real \<Rightarrow> real \<Rightarrow> real" where
  "specForwardTransform coord scl offset = (coord + offset) / scl"


section \<open>Tensors and the tf.js operations the program calls\<close>

text \<open>
  tf.js is a library the program imports; it is no part of the repository. A tensor is
  modelled by its shape and by its element at each index list. Each operation below
  follows the behaviour of the tf.js operation of the same name on the argument forms
  the program uses, including the assertions with which tf.js rejects arguments:
  \<open>transpose\<close> wants a permutation of the right length with entries below the rank;
  \<open>slice\<close> completes missing \<open>begin\<close> entries with 0 and missing \<open>size\<close> entries with
  \<open>-1\<close>, rejects a \<open>begin\<close> entry \<open>-1\<close> and a \<open>size\<close> below \<open>-1\<close>, reads a size
  \<open>-1\<close> as "up to the end" and rejects a slice that overflows the shape; \<open>concat\<close> wants
  at least one tensor and equal shapes off the axis; \<open>squeeze\<close> drops every axis of
  size 1; \<open>dataSync\<close> lists the elements in row-major order.
\<close>

record Tensor =
  shape :: "nat list"
  elem :: "nat list \<Rightarrow> real"

fun flatten :: "nat list \<Rightarrow> (nat list \<Rightarrow> real) \<Rightarrow> real list" where
  "flatten [] f = [f []]"
| "flatten (d # ds) f = concat (map (\<lambda>i. flatten ds (\<lambda>is. f (i # is))) [0..<d])"

definition dataSync :: "Tensor \<Rightarrow> real list" where
  "dataSync t = flatten (shape t) (elem t)"

fun posOf :: "nat list \<Rightarrow> nat \<Rightarrow> nat" where
  "posOf [] d = 0"
| "posOf (p # ps) d = (if p = d then 0 else Suc (posOf ps d))"

definition tf_transpose :: "Tensor \<Rightarrow> nat list \<Rightarrow> error + Tensor" where
  "tf_transpose t perm =
     (if length perm = length (shape t) \<and> list_all (\<lambda>p. p < length (shape t)) perm
      then Inr \<lparr> shape = map (\<lambda>p. shape t ! p) perm,
                 elem = (\<lambda>is. elem t (map (\<lambda>d. is ! posOf perm d) [0..<length perm])) \<rparr>
      else Inl TfAssertionError)"

definition tf_slice :: "Tensor \<Rightarrow> int list \<Rightarrow> int list \<Rightarrow> error + Tensor" where
  "tf_slice t bgn sz =
     (let rank = length (shape t);
          bgn' = bgn @ replicate (rank - length bgn) 0;
          sz' = sz @ replicate (rank - length sz) (- 1);
          sz'' = map (\<lambda>(d, b, s). if 0 \<le> s then s else int d - b) (zip (shape t) (zip bgn' sz'))
      in if list_ex (\<lambda>b. b = - 1) bgn' \<or> list_ex (\<lambda>s. s < - 1) sz' then Inl TfAssertionError
         else if length bgn' \<noteq> rank \<or> length sz' \<noteq> rank then Inl TfAssertionError
         else if list_ex (\<lambda>(d, b, s). int d < b + s) (zip (shape t) (zip bgn' sz'')) then Inl TfAssertionError
         else if list_ex (\<lambda>b. b < 0) bgn' \<or> list_ex (\<lambda>s. s < 0) sz'' then Inl OutsideModel
         else Inr \<lparr> shape = map nat sz'',
                    elem = (\<lambda>is. elem t (map (\<lambda>(b, i). nat b + i) (zip bgn' is))) \<rparr>)"

text \<open>
  \<open>div(t, 2)\<close> divides every element by a scalar. \<open>sub\<close> and \<open>add\<close> work element by
  element; at each call of the program, the two operands are slices of one tensor and
  have the same shape, so broadcasting is not modelled. Each operation rounds every
  element of its result with \<open>rnd\<close>, the rounding of the tensor's precision: the
  identity \<open>\<lambda>x. x\<close> for exact arithmetic, \<open>float32\<close> (below) for the float32 tensors
  of the program.
\<close>

definition tf_div :: "(real \<Rightarrow> real) \<Rightarrow> Tensor \<Rightarrow> real \<Rightarrow> Tensor" where
  "tf_div rnd a c = \<lparr> shape = shape a, elem = (\<lambda>is. rnd (elem a is / c)) \<rparr>"

definition tf_sub :: "(real \<Rightarrow> real) \<Rightarrow> Tensor \<Rightarrow> Tensor \<Rightarrow> Tensor" where
  "tf_sub rnd a b = \<lparr> shape = shape a, elem = (\<lambda>is. rnd (elem a is - elem b is)) \<rparr>"

definition tf_add :: "(real \<Rightarrow> real) \<Rightarrow> Tensor \<Rightarrow> Tensor \<Rightarrow> Tensor" where
  "tf_add rnd a b = \<lparr> shape = shape a, elem = (\<lambda>is. rnd (elem a is + elem b is)) \<rparr>"

fun concatElem :: "Tensor list \<Rightarrow> nat \<Rightarrow> nat list \<Rightarrow> real" where
  "concatElem [] axis is = 0"
| "concatElem (t # ts) axis is =
     (if is ! axis < shape t ! axis then elem t is
      else concatElem ts axis (is[axis := is ! axis - shape t ! axis]))"

definition tf_concat :: "Tensor list \<Rightarrow> nat \<Rightarrow> error + Tensor" where
  "tf_concat ts axis =
     (case ts of
        [] \<Rightarrow> Inl TfAssertionError
      | t # rest \<Rightarrow>
          if axis < length (shape t)
             \<and> list_all (\<lambda>u. (shape u)[axis := 0] = (shape t)[axis := 0]) rest
          then Inr \<lparr> shape = (shape t)[axis := sum_list (map (\<lambda>u. shape u ! axis) ts)],
                     elem = concatElem ts axis \<rparr>
          else Inl TfAssertionError)"

fun unsqueezeIndex :: "nat list \<Rightarrow> nat list \<Rightarrow> nat list" where
  "unsqueezeIndex [] is = []"
| "unsqueezeIndex (d # ds) is =
     (if d = 1 then 0 # unsqueezeIndex ds is
      else (case is of [] \<Rightarrow> 0 # unsqueezeIndex ds [] | i # is' \<Rightarrow> i # unsqueezeIndex ds is'))"

definition tf_squeeze :: "Tensor \<Rightarrow> Tensor" where
  "tf_squeeze t = \<lparr> shape = filter (\<lambda>d. d \<noteq> 1) (shape t),
                    elem = (\<lambda>is. elem t (unsqueezeIndex (shape t) is)) \<rparr>"


section \<open>Rounding to float32\<close>

text \<open>
  The tensors of the program have dtype float32: 24 significant bits, exponents from
  \<open>-126\<close> to 127, subnormals below. An operation yields the representable value
  nearest to the exact result, the one with an even significand on a tie.
  \<open>float32_exponent\<close> searches the exponent downwards from 127 and stops at \<open>-126\<close>.
  Overflow to an infinity is not represented: a magnitude of \<open>2^128\<close> or more is
  rounded with the largest exponent.
\<close>

definition roundTiesToEven :: "real \<Rightarrow> int" where
  "roundTiesToEven y =
     (let f = \<lfloor>y\<rfloor>; d = y - of_int f
      in if d < 1 / 2 then f else if 1 / 2 < d then f + 1 else if even f then f else f + 1)"

fun float32_exponent_from :: "real \<Rightarrow> int \<Rightarrow> nat \<Rightarrow> int" where
  "float32_exponent_from x k 0 = k"
| "float32_exponent_from x k (Suc fuel) =
     (if 2 powi k \<le> \<bar>x\<bar> then k else float32_exponent_from x (k - 1) fuel)"

definition float32_exponent :: "real \<Rightarrow> int" where
  "float32_exponent x = float32_exponent_from x 127 253"

definition float32 :: "real \<Rightarrow> real" where
  "float32 x =
     (let ulp = 2 powi (float32_exponent x - 23)
      in of_int (roundTiesToEven (x / ulp)) * ulp)"


section \<open>Best-detection selection (index.ts, lines 158--222)\<close>

text \<open>
  \<open>Math.max(...scoresArray)\<close>: the maximum of the arguments, and \<open>-Infinity\<close> (here
  \<open>None\<close>) for no argument. A JavaScript engine refuses a call with too many
  arguments; the limit depends on the engine, lies far above the 8400 scores of the
  expected output and is not modelled, so statements about the selection are made for
  at most 8400 anchors. \<open>scoresArray.indexOf(v)\<close>: the first index holding \<open>v\<close>,
  or \<open>-1\<close>. \<open>scoresArray[i]\<close> is \<open>undefined\<close> (here \<open>None\<close>) outside the array.
\<close>

definition Math_max :: "real list \<Rightarrow> real option" where
  "Math_max xs = (case xs of [] \<Rightarrow> None | x # rest \<Rightarrow> Some (foldl max x rest))"

fun indexOf :: "real list \<Rightarrow> real \<Rightarrow> int" where
  "indexOf [] v = - 1"
| "indexOf (x # xs) v =
     (if x = v then 0 else (let i = indexOf xs v in if i < 0 then - 1 else i + 1))"

text \<open>
  \<open>scoresArray.indexOf(Math.max(...scoresArray))\<close>, the local constant
  \<open>bestPredictionIndex\<close> of index.ts (\<open>maxScoreIndex\<close> in 02-output-processing.ts and
  03-letterbox-input-processing.ts). No real number equals \<open>-Infinity\<close>, so the index is
  \<open>-1\<close> for an empty array.
\<close>

definition bestPredictionIndex :: "real list \<Rightarrow> int" where
  "bestPredictionIndex scoresArray =
     (case Math_max scoresArray of None \<Rightarrow> - 1 | Some m \<Rightarrow> indexOf scoresArray m)"

definition arrayGet :: "real list \<Rightarrow> int \<Rightarrow> real option" where
  "arrayGet xs i = (if 0 \<le> i \<and> i < int (length xs) then Some (xs ! nat i) else None)"

text \<open>
  The loop \<open>for (let i = 0; i < keypointsData.length; i += 3)\<close> that pushes
  \<open>[keypointsData[i], keypointsData[i + 1], keypointsData[i + 2]]\<close>. When the length is
  no multiple of 3 the last triplet holds \<open>undefined\<close>, which the model does not
  represent.
\<close>

function formatKeypointsFrom :: "real list \<Rightarrow> nat \<Rightarrow> Keypoint list \<Rightarrow> error + Keypoint list" where
  "formatKeypointsFrom keypointsData i formattedKeypoints =
     (if i < length keypointsData
      then (if i + 2 < length keypointsData
            then formatKeypointsFrom keypointsData (i + 3)
                   (formattedKeypoints @ [(keypointsData ! i, keypointsData ! (i + 1), keypointsData ! (i + 2))])
            else Inl OutsideModel)
      else Inr formattedKeypoints)"
  by pat_completeness auto
termination
  by (relation "measure (\<lambda>(keypointsData, i, formattedKeypoints). length keypointsData - i)") auto

declare formatKeypointsFrom.simps [simp del]

definition bindE :: "error + 'a \<Rightarrow> ('a \<Rightarrow> error + 'b) \<Rightarrow> error + 'b" where
  "bindE m f = (case m of Inl e \<Rightarrow> Inl e | Inr x \<Rightarrow> f x)"

text \<open>
  \<open>getBestPrediction\<close> of index.ts, with the rounding \<open>rnd\<close> of the tensor arithmetic
  as a parameter. The variant in the file src/unnamed/part_000 differs
  by \<open>await tensor.data()\<close> in place of \<open>dataSync()\<close> and by a final \<open>dispose\<close>; it
  computes the same value. \<open>as BoundingBox\<close> is a type assertion: the array read from
  the concatenation of four one-element slices has four elements.
\<close>

definition getBestPrediction_rounded :: "(real \<Rightarrow> real) \<Rightarrow> Tensor \<Rightarrow> error + Prediction" where
  "getBestPrediction_rounded rnd predictions =
     bindE (tf_transpose predictions [0, 2, 1]) (\<lambda>reshapedPredictions.
     bindE (tf_slice reshapedPredictions [0, 0, 0] [- 1, - 1, 1]) (\<lambda>centerX.
     bindE (tf_slice reshapedPredictions [0, 0, 1] [- 1, - 1, 1]) (\<lambda>centerY.
     bindE (tf_slice reshapedPredictions [0, 0, 2] [- 1, - 1, 1]) (\<lambda>width.
     bindE (tf_slice reshapedPredictions [0, 0, 3] [- 1, - 1, 1]) (\<lambda>height.
     let halfWidth = tf_div rnd width 2;
         halfHeight = tf_div rnd height 2;
         x1 = tf_sub rnd centerX halfWidth;
         y1 = tf_sub rnd centerY halfHeight;
         x2 = tf_add rnd centerX halfWidth;
         y2 = tf_add rnd centerY halfHeight
     in
     bindE (tf_slice reshapedPredictions [0, 0, 4] [- 1, - 1, 1]) (\<lambda>confidenceScores.
     bindE (tf_slice reshapedPredictions [0, 0, 5] [- 1, - 1, - 1]) (\<lambda>allKeypoints.
     let scoresArray = dataSync confidenceScores;
         bestConfidence = arrayGet scoresArray (bestPredictionIndex scoresArray)
     in
     bindE (tf_slice x1 [0, bestPredictionIndex scoresArray, 0] [1, 1, 1]) (\<lambda>bx1.
     bindE (tf_slice y1 [0, bestPredictionIndex scoresArray, 0] [1, 1, 1]) (\<lambda>by1.
     bindE (tf_slice x2 [0, bestPredictionIndex scoresArray, 0] [1, 1, 1]) (\<lambda>bx2.
     bindE (tf_slice y2 [0, bestPredictionIndex scoresArray, 0] [1, 1, 1]) (\<lambda>by2.
     bindE (tf_concat [bx1, by1, bx2, by2] 2) (\<lambda>boxes.
     let bestBoundingBox = tf_squeeze boxes in
     bindE (tf_slice allKeypoints [0, bestPredictionIndex scoresArray, 0] [1, 1, - 1]) (\<lambda>bestKeypoints.
     let bestKeypointsTensor = tf_squeeze bestKeypoints;
         keypointsData = dataSync bestKeypointsTensor
     in
     bindE (formatKeypointsFrom keypointsData 0 []) (\<lambda>formattedKeypoints.
     let boxData = dataSync bestBoundingBox in
     (case (boxData, bestConfidence) of
        ([a, b, c, d], Some s) \<Rightarrow>
          Inr \<lparr> box = (a, b, c, d), score = s, keypoints = formattedKeypoints \<rparr>
      | _ \<Rightarrow> Inl OutsideModel)))))))))))))))"

text \<open>The selection over exact arithmetic: no operation rounds.\<close>

definition getBestPrediction :: "Tensor \<Rightarrow> error + Prediction" where
  "getBestPrediction predictions = getBestPrediction_rounded (\<lambda>x. x) predictions"

text \<open>
  \<open>getBestPrediction\<close> of 02-output-processing.ts and 03-letterbox-input-processing.ts
  (the same text in both): here \<open>x2 = add(x1, w)\<close> and \<open>y2 = add(y1, h)\<close>, and the box
  is returned as \<open>number[]\<close>. Again \<open>rnd\<close> is the rounding of the tensor arithmetic,
  and the function without it is the selection over exact arithmetic.
\<close>

record Prediction03 =
  box03 :: "real list"
  score03 :: real
  keypoints03 :: "Keypoint list"

definition getBestPrediction_03_rounded :: "(real \<Rightarrow> real) \<Rightarrow> Tensor \<Rightarrow> error + Prediction03" where
  "getBestPrediction_03_rounded rnd predictions =
     bindE (tf_transpose predictions [0, 2, 1]) (\<lambda>transpose.
     bindE (tf_slice transpose [0, 0, 2] [- 1, - 1, 1]) (\<lambda>w.
     bindE (tf_slice transpose [0, 0, 3] [- 1, - 1, 1]) (\<lambda>h.
     bindE (tf_slice transpose [0, 0, 0] [- 1, - 1, 1]) (\<lambda>cx.
     let x1 = tf_sub rnd cx (tf_div rnd w 2) in
     bindE (tf_slice transpose [0, 0, 1] [- 1, - 1, 1]) (\<lambda>cy.
     let y1 = tf_sub rnd cy (tf_div rnd h 2);
         x2 = tf_add rnd x1 w;
         y2 = tf_add rnd y1 h
     in
     bindE (tf_slice transpose [0, 0, 4] [- 1, - 1, 1]) (\<lambda>scores.
     bindE (tf_slice transpose [0, 0, 5] [- 1, - 1, - 1]) (\<lambda>keypoints.
     let scoresData = dataSync scores;
         maxScoreIndex = bestPredictionIndex scoresData
     in
     bindE (tf_slice x1 [0, maxScoreIndex, 0] [1, 1, 1]) (\<lambda>bx1.
     bindE (tf_slice y1 [0, maxScoreIndex, 0] [1, 1, 1]) (\<lambda>by1.
     bindE (tf_slice x2 [0, maxScoreIndex, 0] [1, 1, 1]) (\<lambda>bx2.
     bindE (tf_slice y2 [0, maxScoreIndex, 0] [1, 1, 1]) (\<lambda>by2.
     bindE (tf_concat [bx1, by1, bx2, by2] 2) (\<lambda>boxes.
     let bestBox = tf_squeeze boxes;
         bestScore = arrayGet scoresData maxScoreIndex
     in
     bindE (tf_slice keypoints [0, maxScoreIndex, 0] [1, 1, - 1]) (\<lambda>bestKeypointsSlice.
     let bestKeypoints = tf_squeeze bestKeypointsSlice;
         keypointsData = dataSync bestKeypoints
     in
     bindE (formatKeypointsFrom keypointsData 0 []) (\<lambda>keypointsFormatted.
     (case bestScore of
        Some s \<Rightarrow>
          Inr \<lparr> box03 = dataSync bestBox, score03 = s, keypoints03 = keypointsFormatted \<rparr>
      | None \<Rightarrow> Inl OutsideModel)))))))))))))))"

definition getBestPrediction_03 :: "Tensor \<Rightarrow> error + Prediction03" where
  "getBestPrediction_03 predictions = getBestPrediction_03_rounded (\<lambda>x. x) predictions"


section \<open>Rendering (index.ts, lines 115--146)\<close>

text \<open>
  The canvas and its 2d context, as far as the program touches them: the size, the
  three style attributes it sets, and the drawing calls it issues, in order.
\<close>

datatype DrawCall =
    ClearRect real real real real
  | DrawImage SourceElement real real real real
  | StrokeRect real real real real
  | BeginPath
  | Arc real real real real real
  | Fill

record Canvas =
  canvas_width :: real
  canvas_height :: real
  strokeStyle :: string
  lineWidth :: real
  fillStyle :: string
  calls :: "DrawCall list"

text \<open>
  \<open>RenderPredictionProps\<close>: the call sites build it by spreading the scaled prediction
  into it, so it has the fields of a prediction and four more.
\<close>

record RenderPredictionProps = Prediction +
  rp_canvas :: Canvas
  rp_source :: SourceElement
  rp_width :: real
  rp_height :: real

definition CONFIDENCE_THRESHOLD :: real where
  "CONFIDENCE_THRESHOLD = 0.5"

text \<open>The body of the loop over the keypoints, index.ts lines 139--145.\<close>

definition drawKeypoint :: "Canvas \<Rightarrow> Keypoint \<Rightarrow> Canvas" where
  "drawKeypoint ctx kp =
     (case kp of (x, y, confidence) \<Rightarrow>
        if confidence > CONFIDENCE_THRESHOLD
        then ctx \<lparr> calls := calls ctx @ [BeginPath, Arc x y 5 0 (2 * pi), Fill] \<rparr>
        else ctx)"

definition renderPrediction :: "RenderPredictionProps \<Rightarrow> Canvas" where
  "renderPrediction props =
     (if score props < CONFIDENCE_THRESHOLD then rp_canvas props
      else
        (let canvas = (rp_canvas props) \<lparr> canvas_width := rp_width props,
                                           canvas_height := rp_height props \<rparr>;
             ctx = canvas \<lparr> calls := calls canvas
                      @ [ClearRect 0 0 (rp_width props) (rp_height props),
                         DrawImage (rp_source props) 0 0 (rp_width props) (rp_height props)] \<rparr>
         in case box props of (x1, y1, x2, y2) \<Rightarrow>
              (let ctx = ctx \<lparr> strokeStyle := ''lime'', lineWidth := 2 \<rparr>;
                   ctx = ctx \<lparr> calls := calls ctx @ [StrokeRect x1 y1 (x2 - x1) (y2 - y1)] \<rparr>;
                   ctx = ctx \<lparr> fillStyle := ''red'' \<rparr>
               in foldl drawKeypoint ctx (keypoints props))))"

text \<open>
  \<open>renderPrediction\<close> of src/unnamed/part_000 (lines 63--100): the same gate and the
  same calls; \<open>fillStyle\<close> is set inside the loop, before each \<open>fill\<close>.
\<close>

definition drawKeypoint_part_000 :: "Canvas \<Rightarrow> Keypoint \<Rightarrow> Canvas" where
  "drawKeypoint_part_000 ctx kp =
     (case kp of (x, y, confidence) \<Rightarrow>
        if confidence > CONFIDENCE_THRESHOLD
        then ctx \<lparr> fillStyle := ''red'',
                   calls := calls ctx @ [BeginPath, Arc x y 5 0 (2 * pi), Fill] \<rparr>
        else ctx)"

definition renderPrediction_part_000 :: "RenderPredictionProps \<Rightarrow> Canvas" where
  "renderPrediction_part_000 props =
     (if score props < CONFIDENCE_THRESHOLD then rp_canvas props
      else
        (let canvas = (rp_canvas props) \<lparr> canvas_width := rp_width props,
                                           canvas_height := rp_height props \<rparr>;
             ctx = canvas \<lparr> calls := calls canvas
                      @ [ClearRect 0 0 (rp_width props) (rp_height props),
                         DrawImage (rp_source props) 0 0 (rp_width props) (rp_height props)] \<rparr>
         in case box props of (x1, y1, x2, y2) \<Rightarrow>
              (let ctx = ctx \<lparr> strokeStyle := ''lime'', lineWidth := 2 \<rparr>;
                   ctx = ctx \<lparr> calls := calls ctx @ [StrokeRect x1 y1 (x2 - x1) (y2 - y1)] \<rparr>
               in foldl drawKeypoint_part_000 ctx (keypoints props))))"


section \<open>Reference definitions and test inputs\<close>

text \<open>
  Following the spec's words (sections 3 and 4.3): the detection carried by anchor \<open>m\<close>
  of a raw output tensor of shape \<open>[1, 56, 8400]\<close>. Channels 0 to 3 are the box in
  centre format, converted by \<open>x1 = cx - w/2\<close>, \<open>y1 = cy - h/2\<close>, \<open>x2 = x1 + w\<close>,
  \<open>y2 = y1 + h\<close>; channel 4 is the objectness score; channels 5 to 55 are 17 keypoint
  triplets in channel order.
\<close>

definition specAnchorDetection :: "Tensor \<Rightarrow> nat \<Rightarrow> Prediction" where
  "specAnchorDetection t m =
     (let cx = elem t [0, 0, m]; cy = elem t [0, 1, m];
          w = elem t [0, 2, m]; h = elem t [0, 3, m];
          x1 = cx - w / 2; y1 = cy - h / 2
      in \<lparr> box = (x1, y1, x1 + w, y1 + h),
           score = elem t [0, 4, m],
           keypoints = map (\<lambda>i. (elem t [0, 5 + 3 * i, m],
                                  elem t [0, 6 + 3 * i, m],
                                  elem t [0, 7 + 3 * i, m])) [0..<17] \<rparr>)"

text \<open>
  A raw output of shape \<open>[1, 56, 8400]\<close> in which anchors 7 and 100 share the maximal
  score 1, every other anchor scores 0, and every other channel of anchor \<open>a\<close> holds
  the number \<open>a\<close>.
\<close>

definition tiePredictions :: Tensor where
  "tiePredictions =
     \<lparr> shape = [1, 56, 8400],
       elem = (\<lambda>is. if is ! 1 = 4 then (if is ! 2 = 7 \<or> is ! 2 = 100 then 1 else 0)
                     else real (is ! 2)) \<rparr>"

text \<open>
  A raw output of shape \<open>[1, 56, 8400]\<close> in which all 8400 scores are 1 and every
  other channel of anchor \<open>a\<close> holds the number \<open>a\<close>.
\<close>

definition flatPredictions :: Tensor where
  "flatPredictions =
     \<lparr> shape = [1, 56, 8400], elem = (\<lambda>is. if is ! 1 = 4 then 1 else real (is ! 2)) \<rparr>"

text \<open>
  The raw output of the spec's scenario (section 8): anchor 0 holds the centre-format
  box \<open>[320, 320, 64, 96]\<close> with score 0.9, every other value is 0.
\<close>

definition scenarioPredictions :: Tensor where
  "scenarioPredictions =
     \<lparr> shape = [1, 56, 8400],
       elem = (\<lambda>is. if is ! 2 = 0 \<and> is ! 1 < 5 then [320, 320, 64, 96, 0.9] ! (is ! 1) else 0) \<rparr>"

text \<open>
  A raw output of shape \<open>[1, 56, 8400]\<close> whose anchor 3 has the only positive score
  and a negative width: centre \<open>(10, 20)\<close>, width \<open>-4\<close>, height \<open>6\<close>.
\<close>

definition degeneratePredictions :: Tensor where
  "degeneratePredictions =
     \<lparr> shape = [1, 56, 8400],
       elem = (\<lambda>is. if is ! 2 = 3 \<and> is ! 1 < 5 then [10, 20, - 4, 6, 1] ! (is ! 1) else 0) \<rparr>"

text \<open>
  A raw output of shape \<open>[1, 56, 8400]\<close> of float32 values whose anchor 0 has the only
  positive score, centre \<open>(320, 8)\<close>, width \<open>64 + 2^-15\<close> and height 4.
\<close>

definition roundingPredictions :: Tensor where
  "roundingPredictions =
     \<lparr> shape = [1, 56, 8400],
       elem = (\<lambda>is. if is ! 2 = 0 \<and> is ! 1 < 5 then [320, 8, 64 + 1 / 32768, 4, 1] ! (is ! 1) else 0) \<rparr>"

text \<open>A tensor of shape \<open>[1, 8, 3]\<close>: neither 56 channels nor 8400 anchors.\<close>

definition smallPredictions :: Tensor where
  "smallPredictions =
     \<lparr> shape = [1, 8, 3],
       elem = (\<lambda>is. if is ! 1 = 4 then (if is ! 2 = 1 then 1 else 0)
                     else real (10 * (is ! 1) + is ! 2)) \<rparr>"

text \<open>A tensor of shape \<open>[1, 4, 3]\<close>: it has no score channel.\<close>

definition narrowPredictions :: Tensor where
  "narrowPredictions = \<lparr> shape = [1, 4, 3], elem = (\<lambda>is. 0) \<rparr>"

text \<open>A render request whose detection score is exactly the threshold.\<close>

definition thresholdProps :: RenderPredictionProps where
  "thresholdProps =
     \<lparr> box = (180, 120, 220, 180), score = 0.5,
       keypoints = [(190, 130, 0.9), (200, 150, 0.5), (210, 170, 0.2)],
       rp_canvas = \<lparr> canvas_width = 0, canvas_height = 0, strokeStyle = ''black'',
                     lineWidth = 1, fillStyle = ''black'', calls = [] \<rparr>,
       rp_source = \<lparr> width = 400, height = 300 \<rparr>,
       rp_width = 400, rp_height = 300 \<rparr>"


section \<open>Lemmas on letterboxing\<close>

lemma floor_half: "\<lfloor>real_of_int t / 2\<rfloor> = t div 2"
  by (metis floor_divide_of_int_eq of_int_numeral)

lemma leftPadding_div: "leftPadding source = totalWidthPadding source div 2"
  by (simp add: leftPadding_def floor_half)

lemma topPadding_div: "topPadding source = totalHeightPadding source div 2"
  by (simp add: topPadding_def floor_half)


section \<open>Lemmas on float32\<close>

lemma float32_exponent_from_eq:
  assumes "2 powi e \<le> \<bar>x\<bar>" "\<bar>x\<bar> < 2 powi (e + 1)" "e \<le> k" "k - e \<le> int fuel"
  shows "float32_exponent_from x k fuel = e"
  using assms(3,4)
proof (induction fuel arbitrary: k)
  case 0
  then show ?case by simp
next
  case (Suc fuel)
  show ?case
  proof (cases "2 powi k \<le> \<bar>x\<bar>")
    case True
    then have lt: "(2::real) powi k < 2 powi (e + 1)"
      using assms(2) by simp
    have "k < e + 1"
    proof (rule ccontr)
      assume "\<not> k < e + 1"
      then have "(2::real) powi (e + 1) \<le> 2 powi k"
        by (intro power_int_increasing) simp_all
      with lt show False by simp
    qed
    with Suc.prems True show ?thesis by simp
  next
    case False
    then have "k \<noteq> e" using assms(1) by auto
    with Suc.prems have "e \<le> k - 1" "k - 1 - e \<le> int fuel" by simp_all
    with False Suc.IH show ?thesis by simp
  qed
qed

lemma float32_value:
  assumes "2 powi e \<le> \<bar>x\<bar>" "\<bar>x\<bar> < 2 powi (e + 1)" "- 126 \<le> e" "e \<le> 127"
  shows "float32 x = of_int (roundTiesToEven (x / 2 powi (e - 23))) * 2 powi (e - 23)"
proof -
  have "float32_exponent x = e"
    unfolding float32_exponent_def
    using assms by (intro float32_exponent_from_eq) simp_all
  then show ?thesis
    by (simp add: float32_def Let_def)
qed

text \<open>The roundings met at the input \<open>roundingPredictions\<close>.\<close>

lemma float32_half_width: "float32 (2097153 / 65536) = 2097153 / 65536"
  using float32_value [of 5 "2097153 / 65536"] by (simp add: roundTiesToEven_def Let_def)

lemma float32_x1: "float32 (18874367 / 65536) = 288"
  using float32_value [of 8 "18874367 / 65536"] by (simp add: roundTiesToEven_def Let_def)

lemma float32_x2_centre: "float32 (23068673 / 65536) = 352"
  using float32_value [of 8 "23068673 / 65536"] by (simp add: roundTiesToEven_def Let_def)

lemma float32_x2_corner: "float32 (11534337 / 32768) = 11534337 / 32768"
  using float32_value [of 8 "11534337 / 32768"] by (simp add: roundTiesToEven_def Let_def)

lemma float32_small: "float32 2 = 2" "float32 6 = 6" "float32 10 = 10"
  using float32_value [of 1 2] float32_value [of 2 6] float32_value [of 3 10]
  by (simp_all add: roundTiesToEven_def Let_def)


section \<open>Lemmas on tensors and on the selection\<close>

lemma bindE_Inr [simp]: "bindE (Inr x) f = f x" by (simp add: bindE_def)

lemma bindE_Inl [simp]: "bindE (Inl e) f = Inl e" by (simp add: bindE_def)

lemma upt_3: "[0..<3] = [0, 1, 2]" by (simp add: upt_rec numeral_3_eq_3)

lemma upt_4: "[0..<4] = [0, 1, 2, 3]" by (simp add: upt_rec eval_nat_numeral)

lemma flatten_1a1: "flatten [1, a, 1] f = map (\<lambda>j. f [0, j, 0]) [0..<a]"
  by (simp add: concat_map_singleton)

lemma flatten_11n: "flatten [1, 1, n] f = map (\<lambda>k. f [0, 0, k]) [0..<n]"
  by (simp add: concat_map_singleton)

lemma flatten_squeeze:
  "flatten (filter (\<lambda>d. d \<noteq> 1) ds) (\<lambda>is. f (unsqueezeIndex ds is)) = flatten ds f"
proof (induction ds arbitrary: f)
  case Nil
  show ?case by simp
next
  case (Cons d ds)
  show ?case
  proof (cases "d = 1")
    case True
    then show ?thesis using Cons.IH [of "\<lambda>is. f (0 # is)"] by simp
  next
    case False
    have "\<And>i. flatten (filter (\<lambda>d. d \<noteq> 1) ds) (\<lambda>is. f (i # unsqueezeIndex ds is))
               = flatten ds (\<lambda>is. f (i # is))"
      using Cons.IH by simp
    with False show ?thesis by simp
  qed
qed

lemma dataSync_squeeze: "dataSync (tf_squeeze t) = dataSync t"
  using flatten_squeeze [of "shape t" "elem t"]
  by (simp add: dataSync_def tf_squeeze_def)

lemma tf_transpose_021:
  assumes "shape t = [b, c, a]"
  shows "\<exists>u. tf_transpose t [0, 2, 1] = Inr u \<and> shape u = [b, a, c]
             \<and> (\<forall>i j k. elem u [i, j, k] = elem t [i, k, j])"
  using assms by (simp add: tf_transpose_def upt_3)

lemma tf_concat_boxes:
  assumes "shape t1 = [1, 1, 1]" "shape t2 = [1, 1, 1]" "shape t3 = [1, 1, 1]" "shape t4 = [1, 1, 1]"
  shows "\<exists>u. tf_concat [t1, t2, t3, t4] 2 = Inr u
             \<and> dataSync u = [elem t1 [0, 0, 0], elem t2 [0, 0, 0], elem t3 [0, 0, 0], elem t4 [0, 0, 0]]"
  using assms by (simp add: tf_concat_def dataSync_def upt_4 concat_map_singleton)

lemma foldl_max_Max: "foldl max x xs = Max (set (x # xs))"
proof (induction xs arbitrary: x)
  case Nil
  show ?case by simp
next
  case (Cons y ys)
  have "foldl max x (y # ys) = Max (set (max x y # ys))"
    using Cons.IH by simp
  also have "\<dots> = Max (set (x # y # ys))"
    by (cases ys) (simp_all add: max.assoc)
  finally show ?case .
qed

lemma Math_max_Cons: "xs \<noteq> [] \<Longrightarrow> Math_max xs = Some (Max (set xs))"
  by (cases xs) (simp_all add: Math_max_def foldl_max_Max)

lemma indexOf_member:
  "v \<in> set xs \<Longrightarrow>
     \<exists>m < length xs. indexOf xs v = int m \<and> xs ! m = v \<and> (\<forall>j < m. xs ! j \<noteq> v)"
proof (induction xs)
  case Nil
  then show ?case by simp
next
  case (Cons x xs)
  show ?case
  proof (cases "x = v")
    case True
    then show ?thesis by auto
  next
    case False
    with Cons.prems have "v \<in> set xs" by simp
    then obtain m where m: "m < length xs" "indexOf xs v = int m" "xs ! m = v"
      "\<forall>j < m. xs ! j \<noteq> v"
      using Cons.IH by blast
    have "\<forall>j < Suc m. (x # xs) ! j \<noteq> v"
      using False m(4) by (auto simp: nth_Cons split: nat.splits)
    with False m show ?thesis
      by (intro exI [of _ "Suc m"]) (simp add: Let_def)
  qed
qed

lemma indexOf_Max:
  assumes "xs \<noteq> []"
  shows "\<exists>m < length xs. indexOf xs (Max (set xs)) = int m
            \<and> (\<forall>j < length xs. xs ! j \<le> xs ! m) \<and> (\<forall>j < m. xs ! j < xs ! m)"
proof -
  have "Max (set xs) \<in> set xs"
    using assms by (intro Max_in) simp_all
  then obtain m where m: "m < length xs" "indexOf xs (Max (set xs)) = int m"
    "xs ! m = Max (set xs)" "\<forall>j < m. xs ! j \<noteq> Max (set xs)"
    using indexOf_member by blast
  have le: "\<forall>j < length xs. xs ! j \<le> xs ! m"
    using m(3) by simp
  have "\<forall>j < m. xs ! j < xs ! m"
  proof (intro allI impI)
    fix j assume "j < m"
    with m(1) le m(3) m(4) show "xs ! j < xs ! m"
      by (metis less_trans order_less_le)
  qed
  with m le show ?thesis by blast
qed

lemma bestPredictionIndex_first_max:
  assumes "xs \<noteq> []"
  shows "\<exists>m < length xs. bestPredictionIndex xs = int m
            \<and> (\<forall>j < length xs. xs ! j \<le> xs ! m) \<and> (\<forall>j < m. xs ! j < xs ! m)"
  using indexOf_Max [OF assms] by (simp add: bestPredictionIndex_def Math_max_Cons [OF assms])

lemma formatKeypointsFrom_groups:
  assumes "length kd = 3 * n" and "j \<le> n"
  shows "formatKeypointsFrom kd (3 * j) acc =
           Inr (acc @ map (\<lambda>i. (kd ! (3 * i), kd ! (3 * i + 1), kd ! (3 * i + 2))) [j..<n])"
  using assms(2)
proof (induction "n - j" arbitrary: j acc)
  case 0
  then have "j = n" by simp
  then show ?case
    using assms(1) by (simp add: formatKeypointsFrom.simps)
next
  case (Suc d)
  then have lt: "j < n" and d: "d = n - Suc j" and le: "Suc j \<le> n" by simp_all
  have step: "formatKeypointsFrom kd (3 * j) acc =
                formatKeypointsFrom kd (3 * Suc j) (acc @ [(kd ! (3 * j), kd ! (3 * j + 1), kd ! (3 * j + 2))])"
    using lt assms(1) by (subst formatKeypointsFrom.simps) (simp add: add.commute)
  show ?case
    unfolding step Suc.hyps(1) [OF d le]
    using lt by (simp add: upt_conv_Cons)
qed

text \<open>
  The selection on a tensor of shape \<open>[1, c, a]\<close> with at least the five box and score
  channels, a whole number \<open>n\<close> of keypoint triplets and at least one anchor: the
  result is read off the anchor \<open>m\<close> that is the first to reach the maximal score.
\<close>

lemma getBestPrediction_rounded_rank3:
  assumes sh: "shape t = [1, c, a]" and c: "5 \<le> c" and a: "0 < a" and n: "c - 5 = 3 * n"
  shows "\<exists>m < a. (\<forall>j < a. elem t [0, 4, j] \<le> elem t [0, 4, m])
             \<and> (\<forall>j < m. elem t [0, 4, j] < elem t [0, 4, m])
             \<and> getBestPrediction_rounded rnd t =
                 Inr \<lparr> box = (rnd (elem t [0, 0, m] - rnd (elem t [0, 2, m] / 2)),
                              rnd (elem t [0, 1, m] - rnd (elem t [0, 3, m] / 2)),
                              rnd (elem t [0, 0, m] + rnd (elem t [0, 2, m] / 2)),
                              rnd (elem t [0, 1, m] + rnd (elem t [0, 3, m] / 2))),
                       score = elem t [0, 4, m],
                       keypoints = map (\<lambda>i. (elem t [0, 5 + 3 * i, m],
                                              elem t [0, 6 + 3 * i, m],
                                              elem t [0, 7 + 3 * i, m])) [0..<n] \<rparr>"
proof -
  obtain tr where tr: "tf_transpose t [0, 2, 1] = Inr tr" "shape tr = [1, a, c]"
    "\<And>i j k. elem tr [i, j, k] = elem t [i, k, j]"
    using tf_transpose_021 [OF sh] by blast
  have "\<exists>u. tf_slice tr [0, 0, 0] [- 1, - 1, 1] = Inr u \<and> shape u = [1, a, 1]
          \<and> (\<forall>i j k. elem u [i, j, k] = elem tr [i, j, k])"
    using tr(2) c by (simp add: tf_slice_def Let_def)
  then obtain centerX where centerX: "tf_slice tr [0, 0, 0] [- 1, - 1, 1] = Inr centerX"
    "shape centerX = [1, a, 1]" "\<And>i j k. elem centerX [i, j, k] = elem tr [i, j, k]"
    by blast
  have "\<exists>u. tf_slice tr [0, 0, 1] [- 1, - 1, 1] = Inr u \<and> shape u = [1, a, 1]
          \<and> (\<forall>i j k. elem u [i, j, k] = elem tr [i, j, 1 + k])"
    using tr(2) c by (simp add: tf_slice_def Let_def)
  then obtain centerY where centerY: "tf_slice tr [0, 0, 1] [- 1, - 1, 1] = Inr centerY"
    "shape centerY = [1, a, 1]" "\<And>i j k. elem centerY [i, j, k] = elem tr [i, j, 1 + k]"
    by blast
  have "\<exists>u. tf_slice tr [0, 0, 2] [- 1, - 1, 1] = Inr u \<and> shape u = [1, a, 1]
          \<and> (\<forall>i j k. elem u [i, j, k] = elem tr [i, j, 2 + k])"
    using tr(2) c by (simp add: tf_slice_def Let_def)
  then obtain wd where wd: "tf_slice tr [0, 0, 2] [- 1, - 1, 1] = Inr wd"
    "shape wd = [1, a, 1]" "\<And>i j k. elem wd [i, j, k] = elem tr [i, j, 2 + k]"
    by blast
  have "\<exists>u. tf_slice tr [0, 0, 3] [- 1, - 1, 1] = Inr u \<and> shape u = [1, a, 1]
          \<and> (\<forall>i j k. elem u [i, j, k] = elem tr [i, j, 3 + k])"
    using tr(2) c by (simp add: tf_slice_def Let_def)
  then obtain ht where ht: "tf_slice tr [0, 0, 3] [- 1, - 1, 1] = Inr ht"
    "shape ht = [1, a, 1]" "\<And>i j k. elem ht [i, j, k] = elem tr [i, j, 3 + k]"
    by blast
  have "\<exists>u. tf_slice tr [0, 0, 4] [- 1, - 1, 1] = Inr u \<and> shape u = [1, a, 1]
          \<and> (\<forall>i j k. elem u [i, j, k] = elem tr [i, j, 4 + k])"
    using tr(2) c by (simp add: tf_slice_def Let_def)
  then obtain cs where cs: "tf_slice tr [0, 0, 4] [- 1, - 1, 1] = Inr cs"
    "shape cs = [1, a, 1]" "\<And>i j k. elem cs [i, j, k] = elem tr [i, j, 4 + k]"
    by blast
  have "\<exists>u. tf_slice tr [0, 0, 5] [- 1, - 1, - 1] = Inr u \<and> shape u = [1, a, c - 5]
          \<and> (\<forall>i j k. elem u [i, j, k] = elem tr [i, j, 5 + k])"
    using tr(2) c by (simp add: tf_slice_def Let_def nat_diff_distrib)
  then obtain ak where ak: "tf_slice tr [0, 0, 5] [- 1, - 1, - 1] = Inr ak"
    "shape ak = [1, a, c - 5]" "\<And>i j k. elem ak [i, j, k] = elem tr [i, j, 5 + k]"
    by blast
  define S where "S = map (\<lambda>j. elem t [0, 4, j]) [0..<a]"
  have S: "dataSync cs = S"
    unfolding dataSync_def cs(2) flatten_1a1 by (simp add: cs(3) tr(3) S_def)
  have "S \<noteq> []" using a by (simp add: S_def)
  then obtain m where m: "m < a" "bestPredictionIndex S = int m"
    "\<forall>j < a. elem t [0, 4, j] \<le> elem t [0, 4, m]" "\<forall>j < m. elem t [0, 4, j] < elem t [0, 4, m]"
    using bestPredictionIndex_first_max [of S] by (auto simp: S_def)
  have conf: "arrayGet S (int m) = Some (elem t [0, 4, m])"
    using m(1) by (simp add: arrayGet_def S_def)
  have "\<exists>u. tf_slice (tf_sub rnd centerX (tf_div rnd wd 2)) [0, int m, 0] [1, 1, 1] = Inr u
          \<and> shape u = [1, 1, 1] \<and> elem u [0, 0, 0] = rnd (elem t [0, 0, m] - rnd (elem t [0, 2, m] / 2))"
    using centerX(2) m(1)
    by (simp add: tf_slice_def Let_def tf_sub_def tf_div_def centerX(3) wd(3) tr(3))
  then obtain bx1 where bx1:
    "tf_slice (tf_sub rnd centerX (tf_div rnd wd 2)) [0, int m, 0] [1, 1, 1] = Inr bx1"
    "shape bx1 = [1, 1, 1]" "elem bx1 [0, 0, 0] = rnd (elem t [0, 0, m] - rnd (elem t [0, 2, m] / 2))"
    by blast
  have "\<exists>u. tf_slice (tf_sub rnd centerY (tf_div rnd ht 2)) [0, int m, 0] [1, 1, 1] = Inr u
          \<and> shape u = [1, 1, 1] \<and> elem u [0, 0, 0] = rnd (elem t [0, 1, m] - rnd (elem t [0, 3, m] / 2))"
    using centerY(2) m(1)
    by (simp add: tf_slice_def Let_def tf_sub_def tf_div_def centerY(3) ht(3) tr(3))
  then obtain by1 where by1:
    "tf_slice (tf_sub rnd centerY (tf_div rnd ht 2)) [0, int m, 0] [1, 1, 1] = Inr by1"
    "shape by1 = [1, 1, 1]" "elem by1 [0, 0, 0] = rnd (elem t [0, 1, m] - rnd (elem t [0, 3, m] / 2))"
    by blast
  have "\<exists>u. tf_slice (tf_add rnd centerX (tf_div rnd wd 2)) [0, int m, 0] [1, 1, 1] = Inr u
          \<and> shape u = [1, 1, 1] \<and> elem u [0, 0, 0] = rnd (elem t [0, 0, m] + rnd (elem t [0, 2, m] / 2))"
    using centerX(2) m(1)
    by (simp add: tf_slice_def Let_def tf_add_def tf_div_def centerX(3) wd(3) tr(3))
  then obtain bx2 where bx2:
    "tf_slice (tf_add rnd centerX (tf_div rnd wd 2)) [0, int m, 0] [1, 1, 1] = Inr bx2"
    "shape bx2 = [1, 1, 1]" "elem bx2 [0, 0, 0] = rnd (elem t [0, 0, m] + rnd (elem t [0, 2, m] / 2))"
    by blast
  have "\<exists>u. tf_slice (tf_add rnd centerY (tf_div rnd ht 2)) [0, int m, 0] [1, 1, 1] = Inr u
          \<and> shape u = [1, 1, 1] \<and> elem u [0, 0, 0] = rnd (elem t [0, 1, m] + rnd (elem t [0, 3, m] / 2))"
    using centerY(2) m(1)
    by (simp add: tf_slice_def Let_def tf_add_def tf_div_def centerY(3) ht(3) tr(3))
  then obtain by2 where by2:
    "tf_slice (tf_add rnd centerY (tf_div rnd ht 2)) [0, int m, 0] [1, 1, 1] = Inr by2"
    "shape by2 = [1, 1, 1]" "elem by2 [0, 0, 0] = rnd (elem t [0, 1, m] + rnd (elem t [0, 3, m] / 2))"
    by blast
  obtain boxes where boxes: "tf_concat [bx1, by1, bx2, by2] 2 = Inr boxes"
    "dataSync boxes = [elem bx1 [0, 0, 0], elem by1 [0, 0, 0], elem bx2 [0, 0, 0], elem by2 [0, 0, 0]]"
    using tf_concat_boxes [OF bx1(2) by1(2) bx2(2) by2(2)] by blast
  have "\<exists>u. tf_slice ak [0, int m, 0] [1, 1, - 1] = Inr u \<and> shape u = [1, 1, c - 5]
          \<and> (\<forall>k. elem u [0, 0, k] = elem t [0, 5 + k, m])"
    using ak(2) m(1) by (simp add: tf_slice_def Let_def ak(3) tr(3))
  then obtain bk where bk: "tf_slice ak [0, int m, 0] [1, 1, - 1] = Inr bk"
    "shape bk = [1, 1, c - 5]" "\<And>k. elem bk [0, 0, k] = elem t [0, 5 + k, m]"
    by blast
  define kd where "kd = map (\<lambda>k. elem t [0, 5 + k, m]) [0..<c - 5]"
  have kd: "dataSync bk = kd"
    unfolding dataSync_def bk(2) flatten_11n by (simp add: bk(3) kd_def)
  have "map (\<lambda>i. (kd ! (3 * i), kd ! (3 * i + 1), kd ! (3 * i + 2))) [0..<n]
          = map (\<lambda>i. (elem t [0, 5 + 3 * i, m], elem t [0, 6 + 3 * i, m], elem t [0, 7 + 3 * i, m])) [0..<n]"
    using n by (auto simp: kd_def add.assoc)
  then have fk: "formatKeypointsFrom kd 0 [] =
      Inr (map (\<lambda>i. (elem t [0, 5 + 3 * i, m], elem t [0, 6 + 3 * i, m], elem t [0, 7 + 3 * i, m])) [0..<n])"
    using formatKeypointsFrom_groups [of kd n 0 "[]"] n by (simp add: kd_def)
  have "getBestPrediction_rounded rnd t =
          Inr \<lparr> box = (rnd (elem t [0, 0, m] - rnd (elem t [0, 2, m] / 2)),
                       rnd (elem t [0, 1, m] - rnd (elem t [0, 3, m] / 2)),
                       rnd (elem t [0, 0, m] + rnd (elem t [0, 2, m] / 2)),
                       rnd (elem t [0, 1, m] + rnd (elem t [0, 3, m] / 2))),
                score = elem t [0, 4, m],
                keypoints = map (\<lambda>i. (elem t [0, 5 + 3 * i, m],
                                       elem t [0, 6 + 3 * i, m],
                                       elem t [0, 7 + 3 * i, m])) [0..<n] \<rparr>"
    unfolding getBestPrediction_rounded_def tr(1) bindE_Inr centerX(1) centerY(1) wd(1) ht(1) cs(1) ak(1)
      Let_def S m(2) bx1(1) by1(1) bx2(1) by2(1) boxes(1) bk(1) dataSync_squeeze boxes(2) kd fk conf
    by (simp add: bx1(3) by1(3) bx2(3) by2(3))
  with m show ?thesis by blast
qed

lemma getBestPrediction_rank3:
  assumes sh: "shape t = [1, c, a]" and c: "5 \<le> c" and a: "0 < a" and n: "c - 5 = 3 * n"
  shows "\<exists>m < a. (\<forall>j < a. elem t [0, 4, j] \<le> elem t [0, 4, m])
             \<and> (\<forall>j < m. elem t [0, 4, j] < elem t [0, 4, m])
             \<and> getBestPrediction t =
                 Inr \<lparr> box = (elem t [0, 0, m] - elem t [0, 2, m] / 2,
                              elem t [0, 1, m] - elem t [0, 3, m] / 2,
                              elem t [0, 0, m] + elem t [0, 2, m] / 2,
                              elem t [0, 1, m] + elem t [0, 3, m] / 2),
                       score = elem t [0, 4, m],
                       keypoints = map (\<lambda>i. (elem t [0, 5 + 3 * i, m],
                                              elem t [0, 6 + 3 * i, m],
                                              elem t [0, 7 + 3 * i, m])) [0..<n] \<rparr>"
  using getBestPrediction_rounded_rank3 [OF assms, of "\<lambda>x. x"] by (simp add: getBestPrediction_def)

lemma getBestPrediction_03_rounded_rank3:
  assumes sh: "shape t = [1, c, a]" and c: "5 \<le> c" and a: "0 < a" and n: "c - 5 = 3 * n"
  shows "\<exists>m < a. (\<forall>j < a. elem t [0, 4, j] \<le> elem t [0, 4, m])
             \<and> (\<forall>j < m. elem t [0, 4, j] < elem t [0, 4, m])
             \<and> getBestPrediction_03_rounded rnd t =
                 Inr \<lparr> box03 = [rnd (elem t [0, 0, m] - rnd (elem t [0, 2, m] / 2)),
                                rnd (elem t [0, 1, m] - rnd (elem t [0, 3, m] / 2)),
                                rnd (rnd (elem t [0, 0, m] - rnd (elem t [0, 2, m] / 2)) + elem t [0, 2, m]),
                                rnd (rnd (elem t [0, 1, m] - rnd (elem t [0, 3, m] / 2)) + elem t [0, 3, m])],
                       score03 = elem t [0, 4, m],
                       keypoints03 = map (\<lambda>i. (elem t [0, 5 + 3 * i, m],
                                                elem t [0, 6 + 3 * i, m],
                                                elem t [0, 7 + 3 * i, m])) [0..<n] \<rparr>"
proof -
  obtain tr where tr: "tf_transpose t [0, 2, 1] = Inr tr" "shape tr = [1, a, c]"
    "\<And>i j k. elem tr [i, j, k] = elem t [i, k, j]"
    using tf_transpose_021 [OF sh] by blast
  have "\<exists>u. tf_slice tr [0, 0, 2] [- 1, - 1, 1] = Inr u \<and> shape u = [1, a, 1]
          \<and> (\<forall>i j k. elem u [i, j, k] = elem tr [i, j, 2 + k])"
    using tr(2) c by (simp add: tf_slice_def Let_def)
  then obtain w where w: "tf_slice tr [0, 0, 2] [- 1, - 1, 1] = Inr w"
    "shape w = [1, a, 1]" "\<And>i j k. elem w [i, j, k] = elem tr [i, j, 2 + k]"
    by blast
  have "\<exists>u. tf_slice tr [0, 0, 3] [- 1, - 1, 1] = Inr u \<and> shape u = [1, a, 1]
          \<and> (\<forall>i j k. elem u [i, j, k] = elem tr [i, j, 3 + k])"
    using tr(2) c by (simp add: tf_slice_def Let_def)
  then obtain h where h: "tf_slice tr [0, 0, 3] [- 1, - 1, 1] = Inr h"
    "shape h = [1, a, 1]" "\<And>i j k. elem h [i, j, k] = elem tr [i, j, 3 + k]"
    by blast
  have "\<exists>u. tf_slice tr [0, 0, 0] [- 1, - 1, 1] = Inr u \<and> shape u = [1, a, 1]
          \<and> (\<forall>i j k. elem u [i, j, k] = elem tr [i, j, k])"
    using tr(2) c by (simp add: tf_slice_def Let_def)
  then obtain cx where cx: "tf_slice tr [0, 0, 0] [- 1, - 1, 1] = Inr cx"
    "shape cx = [1, a, 1]" "\<And>i j k. elem cx [i, j, k] = elem tr [i, j, k]"
    by blast
  have "\<exists>u. tf_slice tr [0, 0, 1] [- 1, - 1, 1] = Inr u \<and> shape u = [1, a, 1]
          \<and> (\<forall>i j k. elem u [i, j, k] = elem tr [i, j, 1 + k])"
    using tr(2) c by (simp add: tf_slice_def Let_def)
  then obtain cy where cy: "tf_slice tr [0, 0, 1] [- 1, - 1, 1] = Inr cy"
    "shape cy = [1, a, 1]" "\<And>i j k. elem cy [i, j, k] = elem tr [i, j, 1 + k]"
    by blast
  have "\<exists>u. tf_slice tr [0, 0, 4] [- 1, - 1, 1] = Inr u \<and> shape u = [1, a, 1]
          \<and> (\<forall>i j k. elem u [i, j, k] = elem tr [i, j, 4 + k])"
    using tr(2) c by (simp add: tf_slice_def Let_def)
  then obtain scores where scores: "tf_slice tr [0, 0, 4] [- 1, - 1, 1] = Inr scores"
    "shape scores = [1, a, 1]" "\<And>i j k. elem scores [i, j, k] = elem tr [i, j, 4 + k]"
    by blast
  have "\<exists>u. tf_slice tr [0, 0, 5] [- 1, - 1, - 1] = Inr u \<and> shape u = [1, a, c - 5]
          \<and> (\<forall>i j k. elem u [i, j, k] = elem tr [i, j, 5 + k])"
    using tr(2) c by (simp add: tf_slice_def Let_def nat_diff_distrib)
  then obtain kps where kps: "tf_slice tr [0, 0, 5] [- 1, - 1, - 1] = Inr kps"
    "shape kps = [1, a, c - 5]" "\<And>i j k. elem kps [i, j, k] = elem tr [i, j, 5 + k]"
    by blast
  define S where "S = map (\<lambda>j. elem t [0, 4, j]) [0..<a]"
  have S: "dataSync scores = S"
    unfolding dataSync_def scores(2) flatten_1a1 by (simp add: scores(3) tr(3) S_def)
  have "S \<noteq> []" using a by (simp add: S_def)
  then obtain m where m: "m < a" "bestPredictionIndex S = int m"
    "\<forall>j < a. elem t [0, 4, j] \<le> elem t [0, 4, m]" "\<forall>j < m. elem t [0, 4, j] < elem t [0, 4, m]"
    using bestPredictionIndex_first_max [of S] by (auto simp: S_def)
  have conf: "arrayGet S (int m) = Some (elem t [0, 4, m])"
    using m(1) by (simp add: arrayGet_def S_def)
  have "\<exists>u. tf_slice (tf_sub rnd cx (tf_div rnd w 2)) [0, int m, 0] [1, 1, 1] = Inr u
          \<and> shape u = [1, 1, 1] \<and> elem u [0, 0, 0] = rnd (elem t [0, 0, m] - rnd (elem t [0, 2, m] / 2))"
    using cx(2) m(1)
    by (simp add: tf_slice_def Let_def tf_sub_def tf_div_def cx(3) w(3) tr(3))
  then obtain bx1 where bx1:
    "tf_slice (tf_sub rnd cx (tf_div rnd w 2)) [0, int m, 0] [1, 1, 1] = Inr bx1"
    "shape bx1 = [1, 1, 1]" "elem bx1 [0, 0, 0] = rnd (elem t [0, 0, m] - rnd (elem t [0, 2, m] / 2))"
    by blast
  have "\<exists>u. tf_slice (tf_sub rnd cy (tf_div rnd h 2)) [0, int m, 0] [1, 1, 1] = Inr u
          \<and> shape u = [1, 1, 1] \<and> elem u [0, 0, 0] = rnd (elem t [0, 1, m] - rnd (elem t [0, 3, m] / 2))"
    using cy(2) m(1)
    by (simp add: tf_slice_def Let_def tf_sub_def tf_div_def cy(3) h(3) tr(3))
  then obtain by1 where by1:
    "tf_slice (tf_sub rnd cy (tf_div rnd h 2)) [0, int m, 0] [1, 1, 1] = Inr by1"
    "shape by1 = [1, 1, 1]" "elem by1 [0, 0, 0] = rnd (elem t [0, 1, m] - rnd (elem t [0, 3, m] / 2))"
    by blast
  have "\<exists>u. tf_slice (tf_add rnd (tf_sub rnd cx (tf_div rnd w 2)) w) [0, int m, 0] [1, 1, 1] = Inr u
          \<and> shape u = [1, 1, 1]
          \<and> elem u [0, 0, 0] = rnd (rnd (elem t [0, 0, m] - rnd (elem t [0, 2, m] / 2)) + elem t [0, 2, m])"
    using cx(2) m(1)
    by (simp add: tf_slice_def Let_def tf_add_def tf_sub_def tf_div_def cx(3) w(3) tr(3))
  then obtain bx2 where bx2:
    "tf_slice (tf_add rnd (tf_sub rnd cx (tf_div rnd w 2)) w) [0, int m, 0] [1, 1, 1] = Inr bx2"
    "shape bx2 = [1, 1, 1]"
    "elem bx2 [0, 0, 0] = rnd (rnd (elem t [0, 0, m] - rnd (elem t [0, 2, m] / 2)) + elem t [0, 2, m])"
    by blast
  have "\<exists>u. tf_slice (tf_add rnd (tf_sub rnd cy (tf_div rnd h 2)) h) [0, int m, 0] [1, 1, 1] = Inr u
          \<and> shape u = [1, 1, 1]
          \<and> elem u [0, 0, 0] = rnd (rnd (elem t [0, 1, m] - rnd (elem t [0, 3, m] / 2)) + elem t [0, 3, m])"
    using cy(2) m(1)
    by (simp add: tf_slice_def Let_def tf_add_def tf_sub_def tf_div_def cy(3) h(3) tr(3))
  then obtain by2 where by2:
    "tf_slice (tf_add rnd (tf_sub rnd cy (tf_div rnd h 2)) h) [0, int m, 0] [1, 1, 1] = Inr by2"
    "shape by2 = [1, 1, 1]"
    "elem by2 [0, 0, 0] = rnd (rnd (elem t [0, 1, m] - rnd (elem t [0, 3, m] / 2)) + elem t [0, 3, m])"
    by blast
  obtain boxes where boxes: "tf_concat [bx1, by1, bx2, by2] 2 = Inr boxes"
    "dataSync boxes = [elem bx1 [0, 0, 0], elem by1 [0, 0, 0], elem bx2 [0, 0, 0], elem by2 [0, 0, 0]]"
    using tf_concat_boxes [OF bx1(2) by1(2) bx2(2) by2(2)] by blast
  have "\<exists>u. tf_slice kps [0, int m, 0] [1, 1, - 1] = Inr u \<and> shape u = [1, 1, c - 5]
          \<and> (\<forall>k. elem u [0, 0, k] = elem t [0, 5 + k, m])"
    using kps(2) m(1) by (simp add: tf_slice_def Let_def kps(3) tr(3))
  then obtain bk where bk: "tf_slice kps [0, int m, 0] [1, 1, - 1] = Inr bk"
    "shape bk = [1, 1, c - 5]" "\<And>k. elem bk [0, 0, k] = elem t [0, 5 + k, m]"
    by blast
  define kd where "kd = map (\<lambda>k. elem t [0, 5 + k, m]) [0..<c - 5]"
  have kd: "dataSync bk = kd"
    unfolding dataSync_def bk(2) flatten_11n by (simp add: bk(3) kd_def)
  have "map (\<lambda>i. (kd ! (3 * i), kd ! (3 * i + 1), kd ! (3 * i + 2))) [0..<n]
          = map (\<lambda>i. (elem t [0, 5 + 3 * i, m], elem t [0, 6 + 3 * i, m], elem t [0, 7 + 3 * i, m])) [0..<n]"
    using n by (auto simp: kd_def add.assoc)
  then have fk: "formatKeypointsFrom kd 0 [] =
      Inr (map (\<lambda>i. (elem t [0, 5 + 3 * i, m], elem t [0, 6 + 3 * i, m], elem t [0, 7 + 3 * i, m])) [0..<n])"
    using formatKeypointsFrom_groups [of kd n 0 "[]"] n by (simp add: kd_def)
  have "getBestPrediction_03_rounded rnd t =
          Inr \<lparr> box03 = [rnd (elem t [0, 0, m] - rnd (elem t [0, 2, m] / 2)),
                         rnd (elem t [0, 1, m] - rnd (elem t [0, 3, m] / 2)),
                         rnd (rnd (elem t [0, 0, m] - rnd (elem t [0, 2, m] / 2)) + elem t [0, 2, m]),
                         rnd (rnd (elem t [0, 1, m] - rnd (elem t [0, 3, m] / 2)) + elem t [0, 3, m])],
                score03 = elem t [0, 4, m],
                keypoints03 = map (\<lambda>i. (elem t [0, 5 + 3 * i, m],
                                         elem t [0, 6 + 3 * i, m],
                                         elem t [0, 7 + 3 * i, m])) [0..<n] \<rparr>"
    unfolding getBestPrediction_03_rounded_def tr(1) bindE_Inr w(1) h(1) cx(1) cy(1) scores(1) kps(1)
      Let_def S m(2) bx1(1) by1(1) bx2(1) by2(1) boxes(1) bk(1) dataSync_squeeze boxes(2) kd fk conf
    by (simp add: bx1(3) by1(3) bx2(3) by2(3))
  with m show ?thesis by blast
qed

lemma first_max_unique:
  fixes f :: "nat \<Rightarrow> real"
  assumes "m < a" "\<forall>j < a. f j \<le> f m" "\<forall>j < m. f j < f m"
    and "m' < a" "\<forall>j < a. f j \<le> f m'" "\<forall>j < m'. f j < f m'"
  shows "m = m'"
proof (rule ccontr)
  assume "m \<noteq> m'"
  then consider "m < m'" | "m' < m" by linarith
  then show False
  proof cases
    case 1
    with assms(6) have "f m < f m'" by simp
    moreover from assms(2,4) have "f m' \<le> f m" by simp
    ultimately show False by simp
  next
    case 2
    with assms(3) have "f m' < f m" by simp
    moreover from assms(5,1) have "f m \<le> f m'" by simp
    ultimately show False by simp
  qed
qed

lemma both_variants_rounded_rank3:
  assumes sh: "shape t = [1, c, a]" and c: "5 \<le> c" and a: "0 < a" and n: "c - 5 = 3 * n"
  shows "\<exists>m < a. (\<forall>j < a. elem t [0, 4, j] \<le> elem t [0, 4, m])
             \<and> (\<forall>j < m. elem t [0, 4, j] < elem t [0, 4, m])
             \<and> getBestPrediction_rounded rnd t =
                 Inr \<lparr> box = (rnd (elem t [0, 0, m] - rnd (elem t [0, 2, m] / 2)),
                              rnd (elem t [0, 1, m] - rnd (elem t [0, 3, m] / 2)),
                              rnd (elem t [0, 0, m] + rnd (elem t [0, 2, m] / 2)),
                              rnd (elem t [0, 1, m] + rnd (elem t [0, 3, m] / 2))),
                       score = elem t [0, 4, m],
                       keypoints = map (\<lambda>i. (elem t [0, 5 + 3 * i, m],
                                              elem t [0, 6 + 3 * i, m],
                                              elem t [0, 7 + 3 * i, m])) [0..<n] \<rparr>
             \<and> getBestPrediction_03_rounded rnd t =
                 Inr \<lparr> box03 = [rnd (elem t [0, 0, m] - rnd (elem t [0, 2, m] / 2)),
                                rnd (elem t [0, 1, m] - rnd (elem t [0, 3, m] / 2)),
                                rnd (rnd (elem t [0, 0, m] - rnd (elem t [0, 2, m] / 2)) + elem t [0, 2, m]),
                                rnd (rnd (elem t [0, 1, m] - rnd (elem t [0, 3, m] / 2)) + elem t [0, 3, m])],
                       score03 = elem t [0, 4, m],
                       keypoints03 = map (\<lambda>i. (elem t [0, 5 + 3 * i, m],
                                                elem t [0, 6 + 3 * i, m],
                                                elem t [0, 7 + 3 * i, m])) [0..<n] \<rparr>"
proof -
  obtain m where m: "m < a" "\<forall>j < a. elem t [0, 4, j] \<le> elem t [0, 4, m]"
    "\<forall>j < m. elem t [0, 4, j] < elem t [0, 4, m]"
    and eq: "getBestPrediction_rounded rnd t =
                 Inr \<lparr> box = (rnd (elem t [0, 0, m] - rnd (elem t [0, 2, m] / 2)),
                              rnd (elem t [0, 1, m] - rnd (elem t [0, 3, m] / 2)),
                              rnd (elem t [0, 0, m] + rnd (elem t [0, 2, m] / 2)),
                              rnd (elem t [0, 1, m] + rnd (elem t [0, 3, m] / 2))),
                       score = elem t [0, 4, m],
                       keypoints = map (\<lambda>i. (elem t [0, 5 + 3 * i, m],
                                              elem t [0, 6 + 3 * i, m],
                                              elem t [0, 7 + 3 * i, m])) [0..<n] \<rparr>"
    using getBestPrediction_rounded_rank3 [OF sh c a n, of rnd] by blast
  obtain m' where m': "m' < a" "\<forall>j < a. elem t [0, 4, j] \<le> elem t [0, 4, m']"
    "\<forall>j < m'. elem t [0, 4, j] < elem t [0, 4, m']"
    and eq': "getBestPrediction_03_rounded rnd t =
                 Inr \<lparr> box03 = [rnd (elem t [0, 0, m'] - rnd (elem t [0, 2, m'] / 2)),
                                rnd (elem t [0, 1, m'] - rnd (elem t [0, 3, m'] / 2)),
                                rnd (rnd (elem t [0, 0, m'] - rnd (elem t [0, 2, m'] / 2)) + elem t [0, 2, m']),
                                rnd (rnd (elem t [0, 1, m'] - rnd (elem t [0, 3, m'] / 2)) + elem t [0, 3, m'])],
                       score03 = elem t [0, 4, m'],
                       keypoints03 = map (\<lambda>i. (elem t [0, 5 + 3 * i, m'],
                                                elem t [0, 6 + 3 * i, m'],
                                                elem t [0, 7 + 3 * i, m'])) [0..<n] \<rparr>"
    using getBestPrediction_03_rounded_rank3 [OF sh c a n, of rnd] by blast
  have "m' = m"
    using first_max_unique [of m' a "\<lambda>j. elem t [0, 4, j]" m] m m' by simp
  with m eq eq' show ?thesis by blast
qed

lemma both_variants_rank3:
  assumes sh: "shape t = [1, c, a]" and c: "5 \<le> c" and a: "0 < a" and n: "c - 5 = 3 * n"
  shows "\<exists>m < a. (\<forall>j < a. elem t [0, 4, j] \<le> elem t [0, 4, m])
             \<and> (\<forall>j < m. elem t [0, 4, j] < elem t [0, 4, m])
             \<and> getBestPrediction t =
                 Inr \<lparr> box = (elem t [0, 0, m] - elem t [0, 2, m] / 2,
                              elem t [0, 1, m] - elem t [0, 3, m] / 2,
                              elem t [0, 0, m] + elem t [0, 2, m] / 2,
                              elem t [0, 1, m] + elem t [0, 3, m] / 2),
                       score = elem t [0, 4, m],
                       keypoints = map (\<lambda>i. (elem t [0, 5 + 3 * i, m],
                                              elem t [0, 6 + 3 * i, m],
                                              elem t [0, 7 + 3 * i, m])) [0..<n] \<rparr>
             \<and> getBestPrediction_03 t =
                 Inr \<lparr> box03 = [elem t [0, 0, m] - elem t [0, 2, m] / 2,
                                elem t [0, 1, m] - elem t [0, 3, m] / 2,
                                elem t [0, 0, m] - elem t [0, 2, m] / 2 + elem t [0, 2, m],
                                elem t [0, 1, m] - elem t [0, 3, m] / 2 + elem t [0, 3, m]],
                       score03 = elem t [0, 4, m],
                       keypoints03 = map (\<lambda>i. (elem t [0, 5 + 3 * i, m],
                                                elem t [0, 6 + 3 * i, m],
                                                elem t [0, 7 + 3 * i, m])) [0..<n] \<rparr>"
  using both_variants_rounded_rank3 [OF assms, of "\<lambda>x. x"]
  by (simp add: getBestPrediction_def getBestPrediction_03_def)

text \<open>With fewer than five channels a channel slice overflows, and tf.js throws.\<close>

lemma getBestPrediction_rounded_few_channels:
  assumes sh: "shape t = [b, c, a]" and c: "c < 5"
  shows "getBestPrediction_rounded rnd t = Inl TfAssertionError"
proof -
  obtain tr where tr: "tf_transpose t [0, 2, 1] = Inr tr" "shape tr = [b, a, c]"
    using tf_transpose_021 [OF sh] by blast
  have ok: "\<And>k. k < c \<Longrightarrow> \<exists>u. tf_slice tr [0, 0, int k] [- 1, - 1, 1] = Inr u"
    using tr(2) by (simp add: tf_slice_def Let_def)
  have bad: "tf_slice tr [0, 0, int c] [- 1, - 1, 1] = Inl TfAssertionError"
    using tr(2) by (simp add: tf_slice_def Let_def)
  consider "c = 0" | "c = 1" | "c = 2" | "c = 3" | "c = 4" using c by linarith
  then show ?thesis
  proof cases
    case 1
    with bad have "tf_slice tr [0, 0, 0] [- 1, - 1, 1] = Inl TfAssertionError" by simp
    then show ?thesis unfolding getBestPrediction_rounded_def tr(1) bindE_Inr by simp
  next
    case 2
    obtain u0 where "tf_slice tr [0, 0, 0] [- 1, - 1, 1] = Inr u0" using ok [of 0] 2 by auto
    moreover have "tf_slice tr [0, 0, 1] [- 1, - 1, 1] = Inl TfAssertionError" using bad 2 by simp
    ultimately show ?thesis unfolding getBestPrediction_rounded_def tr(1) bindE_Inr by simp
  next
    case 3
    obtain u0 where "tf_slice tr [0, 0, 0] [- 1, - 1, 1] = Inr u0" using ok [of 0] 3 by auto
    moreover obtain u1 where "tf_slice tr [0, 0, 1] [- 1, - 1, 1] = Inr u1" using ok [of 1] 3 by auto
    moreover have "tf_slice tr [0, 0, 2] [- 1, - 1, 1] = Inl TfAssertionError" using bad 3 by simp
    ultimately show ?thesis unfolding getBestPrediction_rounded_def tr(1) bindE_Inr by simp
  next
    case 4
    obtain u0 where "tf_slice tr [0, 0, 0] [- 1, - 1, 1] = Inr u0" using ok [of 0] 4 by auto
    moreover obtain u1 where "tf_slice tr [0, 0, 1] [- 1, - 1, 1] = Inr u1" using ok [of 1] 4 by auto
    moreover obtain u2 where "tf_slice tr [0, 0, 2] [- 1, - 1, 1] = Inr u2" using ok [of 2] 4 by auto
    moreover have "tf_slice tr [0, 0, 3] [- 1, - 1, 1] = Inl TfAssertionError" using bad 4 by simp
    ultimately show ?thesis unfolding getBestPrediction_rounded_def tr(1) bindE_Inr by simp
  next
    case 5
    obtain u0 where "tf_slice tr [0, 0, 0] [- 1, - 1, 1] = Inr u0" using ok [of 0] 5 by auto
    moreover obtain u1 where "tf_slice tr [0, 0, 1] [- 1, - 1, 1] = Inr u1" using ok [of 1] 5 by auto
    moreover obtain u2 where "tf_slice tr [0, 0, 2] [- 1, - 1, 1] = Inr u2" using ok [of 2] 5 by auto
    moreover obtain u3 where "tf_slice tr [0, 0, 3] [- 1, - 1, 1] = Inr u3" using ok [of 3] 5 by auto
    moreover have "tf_slice tr [0, 0, 4] [- 1, - 1, 1] = Inl TfAssertionError" using bad 5 by simp
    ultimately show ?thesis unfolding getBestPrediction_rounded_def tr(1) bindE_Inr by (simp add: Let_def)
  qed
qed


section \<open>Lemmas on rendering\<close>

lemma foldl_drawKeypoint_calls:
  "calls (foldl drawKeypoint ctx kps) =
     calls ctx @ concat (map (\<lambda>(x, y, c). [BeginPath, Arc x y 5 0 (2 * pi), Fill])
                          (filter (\<lambda>(x, y, c). c > CONFIDENCE_THRESHOLD) kps))"
  by (induction kps arbitrary: ctx) (auto simp: drawKeypoint_def)

lemma foldl_drawKeypoint_part_000_calls:
  "calls (foldl drawKeypoint_part_000 ctx kps) =
     calls ctx @ concat (map (\<lambda>(x, y, c). [BeginPath, Arc x y 5 0 (2 * pi), Fill])
                          (filter (\<lambda>(x, y, c). c > CONFIDENCE_THRESHOLD) kps))"
  by (induction kps arbitrary: ctx) (auto simp: drawKeypoint_part_000_def)

lemma renderPrediction_calls:
  assumes "\<not> score props < CONFIDENCE_THRESHOLD" and "box props = (x1, y1, x2, y2)"
  shows "calls (renderPrediction props) =
           calls (rp_canvas props)
           @ [ClearRect 0 0 (rp_width props) (rp_height props),
              DrawImage (rp_source props) 0 0 (rp_width props) (rp_height props),
              StrokeRect x1 y1 (x2 - x1) (y2 - y1)]
           @ concat (map (\<lambda>(x, y, c). [BeginPath, Arc x y 5 0 (2 * pi), Fill])
                       (filter (\<lambda>(x, y, c). c > CONFIDENCE_THRESHOLD) (keypoints props)))"
  using assms by (simp add: renderPrediction_def Let_def foldl_drawKeypoint_calls)

lemma renderPrediction_part_000_calls:
  assumes "\<not> score props < CONFIDENCE_THRESHOLD" and "box props = (x1, y1, x2, y2)"
  shows "calls (renderPrediction_part_000 props) =
           calls (rp_canvas props)
           @ [ClearRect 0 0 (rp_width props) (rp_height props),
              DrawImage (rp_source props) 0 0 (rp_width props) (rp_height props),
              StrokeRect x1 y1 (x2 - x1) (y2 - y1)]
           @ concat (map (\<lambda>(x, y, c). [BeginPath, Arc x y 5 0 (2 * pi), Fill])
                       (filter (\<lambda>(x, y, c). c > CONFIDENCE_THRESHOLD) (keypoints props)))"
  using assms by (simp add: renderPrediction_part_000_def Let_def foldl_drawKeypoint_part_000_calls)


section \<open>Lemmas on the test inputs\<close>

lemma tie_selected:
  assumes "m < 8400"
    and "\<forall>j < 8400. elem tiePredictions [0, 4, j] \<le> elem tiePredictions [0, 4, m]"
    and "\<forall>j < m. elem tiePredictions [0, 4, j] < elem tiePredictions [0, 4, m]"
  shows "m = 7"
proof -
  have sc: "\<And>j. elem tiePredictions [0, 4, j] = (if j = 7 \<or> j = 100 then 1 else 0)"
    by (simp add: tiePredictions_def)
  have "elem tiePredictions [0, 4, 7] \<le> elem tiePredictions [0, 4, m]"
    using assms(2) by simp
  then have "m = 7 \<or> m = 100"
    unfolding sc by (simp split: if_splits)
  moreover have "m \<noteq> 100"
  proof
    assume "m = 100"
    with assms(3) have "elem tiePredictions [0, 4, 7] < elem tiePredictions [0, 4, 100]" by simp
    then show False unfolding sc by simp
  qed
  ultimately show ?thesis by simp
qed

lemma degenerate_selected:
  assumes "m < 8400"
    and "\<forall>j < 8400. elem degeneratePredictions [0, 4, j] \<le> elem degeneratePredictions [0, 4, m]"
  shows "m = 3"
proof -
  have sc: "\<And>j. elem degeneratePredictions [0, 4, j] = (if j = 3 then 1 else 0)"
    by (simp add: degeneratePredictions_def)
  have "elem degeneratePredictions [0, 4, 3] \<le> elem degeneratePredictions [0, 4, m]"
    using assms(2) by simp
  then show ?thesis
    unfolding sc by (simp split: if_splits)
qed

lemma scenario_best:
  "getBestPrediction scenarioPredictions =
     Inr \<lparr> box = (288, 272, 352, 368), score = 9 / 10, keypoints = replicate 17 (0, 0, 0) \<rparr>"
proof -
  have sh: "shape scenarioPredictions = [1, 56, 8400]"
    by (simp add: scenarioPredictions_def)
  obtain m where m: "m < 8400"
    "\<forall>j < 8400. elem scenarioPredictions [0, 4, j] \<le> elem scenarioPredictions [0, 4, m]"
    and eq: "getBestPrediction scenarioPredictions =
       Inr \<lparr> box = (elem scenarioPredictions [0, 0, m] - elem scenarioPredictions [0, 2, m] / 2,
                    elem scenarioPredictions [0, 1, m] - elem scenarioPredictions [0, 3, m] / 2,
                    elem scenarioPredictions [0, 0, m] + elem scenarioPredictions [0, 2, m] / 2,
                    elem scenarioPredictions [0, 1, m] + elem scenarioPredictions [0, 3, m] / 2),
             score = elem scenarioPredictions [0, 4, m],
             keypoints = map (\<lambda>i. (elem scenarioPredictions [0, 5 + 3 * i, m],
                                    elem scenarioPredictions [0, 6 + 3 * i, m],
                                    elem scenarioPredictions [0, 7 + 3 * i, m])) [0..<17] \<rparr>"
    using getBestPrediction_rank3 [OF sh, of 17] by auto
  have sc: "\<And>j. elem scenarioPredictions [0, 4, j] = (if j = 0 then 9 / 10 else 0)"
    by (simp add: scenarioPredictions_def)
  have "elem scenarioPredictions [0, 4, 0] \<le> elem scenarioPredictions [0, 4, m]"
    using m(2) by simp
  then have "m = 0"
    unfolding sc by (simp split: if_splits)
  then show ?thesis
    unfolding eq by (simp add: scenarioPredictions_def map_replicate_const)
qed

lemma scenario_letterbox:
  "processImageWithLetterboxing \<lparr> width = 400, height = 300 \<rparr> \<lparr> modelHeight = 640, modelWidth = 640 \<rparr> =
     Inr \<lparr> processedImage = [1, 640, 640, 3],
           transformParams = \<lparr> scale = 5 / 8, xOffset = 0, yOffset = 50,
                               originalWidth = 400, originalHeight = 300 \<rparr> \<rparr>"
  by (simp add: processImageWithLetterboxing_def Let_def pad_shape_def targetSquareSize_def
      leftPadding_div topPadding_div rightPadding_def bottomPadding_def
      totalWidthPadding_def totalHeightPadding_def)

lemma small_best:
  "getBestPrediction smallPredictions =
     Inr \<lparr> box = (- 19 / 2, - 9 / 2, 23 / 2, 53 / 2), score = 1, keypoints = [(51, 61, 71)] \<rparr>"
proof -
  have sh: "shape smallPredictions = [1, 8, 3]"
    by (simp add: smallPredictions_def)
  obtain m where m: "m < 3"
    "\<forall>j < 3. elem smallPredictions [0, 4, j] \<le> elem smallPredictions [0, 4, m]"
    and eq: "getBestPrediction smallPredictions =
       Inr \<lparr> box = (elem smallPredictions [0, 0, m] - elem smallPredictions [0, 2, m] / 2,
                    elem smallPredictions [0, 1, m] - elem smallPredictions [0, 3, m] / 2,
                    elem smallPredictions [0, 0, m] + elem smallPredictions [0, 2, m] / 2,
                    elem smallPredictions [0, 1, m] + elem smallPredictions [0, 3, m] / 2),
             score = elem smallPredictions [0, 4, m],
             keypoints = map (\<lambda>i. (elem smallPredictions [0, 5 + 3 * i, m],
                                    elem smallPredictions [0, 6 + 3 * i, m],
                                    elem smallPredictions [0, 7 + 3 * i, m])) [0..<1] \<rparr>"
    using getBestPrediction_rank3 [OF sh, of 1] by auto
  have sc: "\<And>j. elem smallPredictions [0, 4, j] = (if j = 1 then 1 else 0)"
    by (simp add: smallPredictions_def)
  have "elem smallPredictions [0, 4, 1] \<le> elem smallPredictions [0, 4, m]"
    using m(2) by simp
  then have "m = 1"
    unfolding sc by (simp split: if_splits)
  then show ?thesis
    unfolding eq by (simp add: smallPredictions_def)
qed


lemma rounding_selected:
  assumes "m < 8400"
    and "\<forall>j < 8400. elem roundingPredictions [0, 4, j] \<le> elem roundingPredictions [0, 4, m]"
  shows "m = 0"
proof -
  have sc: "\<And>j. elem roundingPredictions [0, 4, j] = (if j = 0 then 1 else 0)"
    by (simp add: roundingPredictions_def)
  have "elem roundingPredictions [0, 4, 0] \<le> elem roundingPredictions [0, 4, m]"
    using assms(2) by simp
  then show ?thesis
    unfolding sc by (simp split: if_splits)
qed

lemma rounding_best:
  "getBestPrediction_rounded float32 roundingPredictions =
     Inr \<lparr> box = (288, 6, 352, 10), score = 1, keypoints = replicate 17 (0, 0, 0) \<rparr>
   \<and> getBestPrediction_03_rounded float32 roundingPredictions =
     Inr \<lparr> box03 = [288, 6, 352 + 1 / 32768, 10], score03 = 1,
           keypoints03 = replicate 17 (0, 0, 0) \<rparr>"
proof -
  have sh: "shape roundingPredictions = [1, 56, 8400]"
    by (simp add: roundingPredictions_def)
  obtain m where m: "m < 8400"
    "\<forall>j < 8400. elem roundingPredictions [0, 4, j] \<le> elem roundingPredictions [0, 4, m]"
    and eq: "getBestPrediction_rounded float32 roundingPredictions =
       Inr \<lparr> box = (float32 (elem roundingPredictions [0, 0, m] - float32 (elem roundingPredictions [0, 2, m] / 2)),
                    float32 (elem roundingPredictions [0, 1, m] - float32 (elem roundingPredictions [0, 3, m] / 2)),
                    float32 (elem roundingPredictions [0, 0, m] + float32 (elem roundingPredictions [0, 2, m] / 2)),
                    float32 (elem roundingPredictions [0, 1, m] + float32 (elem roundingPredictions [0, 3, m] / 2))),
             score = elem roundingPredictions [0, 4, m],
             keypoints = map (\<lambda>i. (elem roundingPredictions [0, 5 + 3 * i, m],
                                    elem roundingPredictions [0, 6 + 3 * i, m],
                                    elem roundingPredictions [0, 7 + 3 * i, m])) [0..<17] \<rparr>"
    and eq': "getBestPrediction_03_rounded float32 roundingPredictions =
       Inr \<lparr> box03 = [float32 (elem roundingPredictions [0, 0, m] - float32 (elem roundingPredictions [0, 2, m] / 2)),
                      float32 (elem roundingPredictions [0, 1, m] - float32 (elem roundingPredictions [0, 3, m] / 2)),
                      float32 (float32 (elem roundingPredictions [0, 0, m] - float32 (elem roundingPredictions [0, 2, m] / 2))
                               + elem roundingPredictions [0, 2, m]),
                      float32 (float32 (elem roundingPredictions [0, 1, m] - float32 (elem roundingPredictions [0, 3, m] / 2))
                               + elem roundingPredictions [0, 3, m])],
             score03 = elem roundingPredictions [0, 4, m],
             keypoints03 = map (\<lambda>i. (elem roundingPredictions [0, 5 + 3 * i, m],
                                      elem roundingPredictions [0, 6 + 3 * i, m],
                                      elem roundingPredictions [0, 7 + 3 * i, m])) [0..<17] \<rparr>"
    using both_variants_rounded_rank3 [OF sh, of 17 float32] by auto
  have "m = 0" using rounding_selected m by blast
  then show ?thesis
    unfolding eq eq'
    by (simp add: roundingPredictions_def map_replicate_const float32_half_width float32_x1
        float32_x2_centre float32_x2_corner float32_small)
qed


section \<open>Claims\<close>

text \<open>
  C1. Round trip. For a source of positive width and height and a model input of
  positive width (the model input is square, so its height is its width), letterboxing
  succeeds with \<open>scale = max width height / modelWidth\<close>, and for every source-space
  coordinate, on either axis, the forward letterbox map (add the axis offset, divide by
  the scale) followed by \<open>transformCoordinate\<close> with the same scale and offset gives the
  coordinate back exactly. Numbers are exact reals here, so the error is zero, which is
  within any tolerance; floating-point rounding is not represented.
\<close>

theorem C1_roundtrip:
  assumes "0 < width source" and "0 < height source"
    and "0 < modelWidth model" and "modelHeight model = modelWidth model"
  shows "\<exists>r. processImageWithLetterboxing source model = Inr r
           \<and> scale (transformParams r)
               = real_of_int (max (width source) (height source)) / real_of_int (modelWidth model)
           \<and> (\<forall>x. transformCoordinate
                      (specForwardTransform x (scale (transformParams r)) (xOffset (transformParams r)))
                      (scale (transformParams r)) (xOffset (transformParams r)) = x)
           \<and> (\<forall>y. transformCoordinate
                      (specForwardTransform y (scale (transformParams r)) (yOffset (transformParams r)))
                      (scale (transformParams r)) (yOffset (transformParams r)) = y)"
proof -
  have pos: "0 < max (width source) (height source)"
    using assms(1) by simp
  then have nz: "real_of_int (max (width source) (height source)) / real_of_int (modelWidth model) \<noteq> 0"
    using assms(3) by simp
  show ?thesis
    using assms(3) nz
    by (simp add: processImageWithLetterboxing_def Let_def targetSquareSize_def
        transformCoordinate_def specForwardTransform_def)
qed

text \<open>
  The round trip at a square source, a wide source (640 by 360), a tall source (360 by
  640) and a source with an odd difference (251 by 100, padded by 75 above and 76
  below), each for a model input of 640 by 640.
\<close>

theorem C1_roundtrip_witness:
  "(\<exists>r. processImageWithLetterboxing \<lparr> width = 640, height = 640 \<rparr> \<lparr> modelHeight = 640, modelWidth = 640 \<rparr> = Inr r
        \<and> scale (transformParams r) = 1
        \<and> transformCoordinate (specForwardTransform 123 (scale (transformParams r)) (xOffset (transformParams r)))
             (scale (transformParams r)) (xOffset (transformParams r)) = 123)
   \<and> (\<exists>r. processImageWithLetterboxing \<lparr> width = 640, height = 360 \<rparr> \<lparr> modelHeight = 640, modelWidth = 640 \<rparr> = Inr r
        \<and> scale (transformParams r) = 1 \<and> yOffset (transformParams r) = 140
        \<and> transformCoordinate (specForwardTransform 359 (scale (transformParams r)) (yOffset (transformParams r)))
             (scale (transformParams r)) (yOffset (transformParams r)) = 359)
   \<and> (\<exists>r. processImageWithLetterboxing \<lparr> width = 360, height = 640 \<rparr> \<lparr> modelHeight = 640, modelWidth = 640 \<rparr> = Inr r
        \<and> scale (transformParams r) = 1 \<and> xOffset (transformParams r) = 140
        \<and> transformCoordinate (specForwardTransform 7 (scale (transformParams r)) (xOffset (transformParams r)))
             (scale (transformParams r)) (xOffset (transformParams r)) = 7)
   \<and> (\<exists>r. processImageWithLetterboxing \<lparr> width = 251, height = 100 \<rparr> \<lparr> modelHeight = 640, modelWidth = 640 \<rparr> = Inr r
        \<and> scale (transformParams r) = 251 / 640 \<and> yOffset (transformParams r) = 75
        \<and> transformCoordinate (specForwardTransform 99 (scale (transformParams r)) (yOffset (transformParams r)))
             (scale (transformParams r)) (yOffset (transformParams r)) = 99)"
  using C1_roundtrip [of "\<lparr> width = 640, height = 640 \<rparr>" "\<lparr> modelHeight = 640, modelWidth = 640 \<rparr>"]
        C1_roundtrip [of "\<lparr> width = 640, height = 360 \<rparr>" "\<lparr> modelHeight = 640, modelWidth = 640 \<rparr>"]
        C1_roundtrip [of "\<lparr> width = 360, height = 640 \<rparr>" "\<lparr> modelHeight = 640, modelWidth = 640 \<rparr>"]
        C1_roundtrip [of "\<lparr> width = 251, height = 100 \<rparr>" "\<lparr> modelHeight = 640, modelWidth = 640 \<rparr>"]
  by (simp add: processImageWithLetterboxing_def Let_def targetSquareSize_def
      leftPadding_div topPadding_div totalWidthPadding_def totalHeightPadding_def)

text \<open>
  C2. Best-detection selection. For every raw output tensor of shape \<open>[1, 56, 8400]\<close>
  the selector succeeds and returns the box, the score and the 17 keypoints of one
  anchor \<open>m\<close>: no anchor has a larger channel-4 score than \<open>m\<close>, and every anchor
  before \<open>m\<close> has a strictly smaller one. So the result is the first anchor, in anchor
  order, that reaches the maximal score, whatever the scores are: nothing is compared
  with a threshold and no anchor is suppressed.
\<close>

theorem C2_selects_first_max_anchor:
  assumes "shape t = [1, 56, 8400]"
  shows "\<exists>m < 8400. (\<forall>j < 8400. elem t [0, 4, j] \<le> elem t [0, 4, m])
             \<and> (\<forall>j < m. elem t [0, 4, j] < elem t [0, 4, m])
             \<and> getBestPrediction t = Inr (specAnchorDetection t m)"
proof -
  obtain m where m: "m < 8400" "\<forall>j < 8400. elem t [0, 4, j] \<le> elem t [0, 4, m]"
    "\<forall>j < m. elem t [0, 4, j] < elem t [0, 4, m]"
    and eq: "getBestPrediction t =
       Inr \<lparr> box = (elem t [0, 0, m] - elem t [0, 2, m] / 2,
                    elem t [0, 1, m] - elem t [0, 3, m] / 2,
                    elem t [0, 0, m] + elem t [0, 2, m] / 2,
                    elem t [0, 1, m] + elem t [0, 3, m] / 2),
             score = elem t [0, 4, m],
             keypoints = map (\<lambda>i. (elem t [0, 5 + 3 * i, m],
                                    elem t [0, 6 + 3 * i, m],
                                    elem t [0, 7 + 3 * i, m])) [0..<17] \<rparr>"
    using getBestPrediction_rank3 [OF assms, of 17] by auto
  have "getBestPrediction t = Inr (specAnchorDetection t m)"
    unfolding eq by (simp add: specAnchorDetection_def Let_def)
  with m show ?thesis by blast
qed

text \<open>
  Two inputs: anchors 7 and 100 share the maximal score and anchor 7 is returned; all
  8400 scores are equal and anchor 0 is returned.
\<close>

theorem C2_selects_first_max_anchor_witness:
  "shape tiePredictions = [1, 56, 8400]
   \<and> getBestPrediction tiePredictions =
       Inr \<lparr> box = (7 / 2, 7 / 2, 21 / 2, 21 / 2), score = 1, keypoints = replicate 17 (7, 7, 7) \<rparr>
   \<and> shape flatPredictions = [1, 56, 8400]
   \<and> getBestPrediction flatPredictions =
       Inr \<lparr> box = (0, 0, 0, 0), score = 1, keypoints = replicate 17 (0, 0, 0) \<rparr>"
proof -
  have sh: "shape tiePredictions = [1, 56, 8400]"
    by (simp add: tiePredictions_def)
  obtain m where m: "m < 8400"
    "\<forall>j < 8400. elem tiePredictions [0, 4, j] \<le> elem tiePredictions [0, 4, m]"
    "\<forall>j < m. elem tiePredictions [0, 4, j] < elem tiePredictions [0, 4, m]"
    "getBestPrediction tiePredictions = Inr (specAnchorDetection tiePredictions m)"
    using C2_selects_first_max_anchor [OF sh] by blast
  have sc: "\<And>j. elem tiePredictions [0, 4, j] = (if j = 7 \<or> j = 100 then 1 else 0)"
    by (simp add: tiePredictions_def)
  have "elem tiePredictions [0, 4, 7] \<le> elem tiePredictions [0, 4, m]"
    using m(2) by simp
  then have "m = 7 \<or> m = 100"
    unfolding sc by (simp split: if_splits)
  moreover have "m \<noteq> 100"
  proof
    assume "m = 100"
    with m(3) have "elem tiePredictions [0, 4, 7] < elem tiePredictions [0, 4, 100]" by simp
    then show False unfolding sc by simp
  qed
  ultimately have "m = 7" by simp
  then have tie: "getBestPrediction tiePredictions =
      Inr \<lparr> box = (7 / 2, 7 / 2, 21 / 2, 21 / 2), score = 1, keypoints = replicate 17 (7, 7, 7) \<rparr>"
    using m(4) by (simp add: specAnchorDetection_def Let_def tiePredictions_def map_replicate_const)
  have sh': "shape flatPredictions = [1, 56, 8400]"
    by (simp add: flatPredictions_def)
  obtain k where k: "k < 8400"
    "\<forall>j < k. elem flatPredictions [0, 4, j] < elem flatPredictions [0, 4, k]"
    "getBestPrediction flatPredictions = Inr (specAnchorDetection flatPredictions k)"
    using C2_selects_first_max_anchor [OF sh'] by blast
  have "k = 0"
  proof (rule ccontr)
    assume "k \<noteq> 0"
    with k(2) have "elem flatPredictions [0, 4, 0] < elem flatPredictions [0, 4, k]" by simp
    then show False by (simp add: flatPredictions_def)
  qed
  then have flat: "getBestPrediction flatPredictions =
      Inr \<lparr> box = (0, 0, 0, 0), score = 1, keypoints = replicate 17 (0, 0, 0) \<rparr>"
    using k(3) by (simp add: specAnchorDetection_def Let_def flatPredictions_def map_replicate_const)
  from sh tie sh' flat show ?thesis by simp
qed

text \<open>
  C3. Letterbox padding totals are exact. With \<open>targetSquareSize = max width height\<close>,
  left padding plus source width plus right padding is the target square size, and top
  padding plus source height plus bottom padding likewise. The padding before is the
  floor of half the difference and the padding after is the remainder, so the after
  side exceeds the before side by the parity of the difference: by 1 when the
  difference is odd and by 0 when it is even. This holds for every source; positive
  dimensions are not needed.
\<close>

theorem C3_padding_totals_exact:
  "targetSquareSize source = max (width source) (height source)
   \<and> leftPadding source + width source + rightPadding source = targetSquareSize source
   \<and> topPadding source + height source + bottomPadding source = targetSquareSize source
   \<and> leftPadding source = (targetSquareSize source - width source) div 2
   \<and> rightPadding source = (targetSquareSize source - width source) - leftPadding source
   \<and> topPadding source = (targetSquareSize source - height source) div 2
   \<and> bottomPadding source = (targetSquareSize source - height source) - topPadding source
   \<and> rightPadding source - leftPadding source = (targetSquareSize source - width source) mod 2
   \<and> bottomPadding source - topPadding source = (targetSquareSize source - height source) mod 2"
proof -
  have w: "rightPadding source - leftPadding source = totalWidthPadding source mod 2"
    unfolding rightPadding_def leftPadding_div by presburger
  have h: "bottomPadding source - topPadding source = totalHeightPadding source mod 2"
    unfolding bottomPadding_def topPadding_div by presburger
  show ?thesis
    using w h
    by (simp add: rightPadding_def bottomPadding_def leftPadding_div topPadding_div
        totalWidthPadding_def totalHeightPadding_def targetSquareSize_def)
qed

text \<open>
  C4, as the program behaves. For every raw output tensor of shape \<open>[1, 56, 8400]\<close>,
  with \<open>m\<close> the selected anchor, \<open>(cx, cy, w, h)\<close> its centre-format values and \<open>rnd\<close>
  the rounding of each tensor operation, both variants of the selector return
  \<open>x1 = rnd (cx - rnd (w/2))\<close> and \<open>y1 = rnd (cy - rnd (h/2))\<close>, unclamped. The variant
  of 03-letterbox-input-processing.ts returns \<open>x2 = rnd (x1 + w)\<close> and
  \<open>y2 = rnd (y1 + h)\<close>, the spec's formula; the variant of index.ts returns
  \<open>x2 = rnd (cx + rnd (w/2))\<close> and \<open>y2 = rnd (cy + rnd (h/2))\<close>. Over exact arithmetic
  (no rounding) the two variants return the same box, which is \<open>x1 = cx - w/2\<close>,
  \<open>y1 = cy - h/2\<close>, \<open>x2 = x1 + w\<close>, \<open>y2 = y1 + h\<close>.
\<close>

theorem C4_box_conversion_rounded:
  assumes "shape t = [1, 56, 8400]"
  shows "\<exists>m < 8400. \<exists>p q p' q'.
           (\<forall>j < 8400. elem t [0, 4, j] \<le> elem t [0, 4, m])
           \<and> (\<forall>j < m. elem t [0, 4, j] < elem t [0, 4, m])
           \<and> getBestPrediction_rounded rnd t = Inr p \<and> getBestPrediction_03_rounded rnd t = Inr q
           \<and> (let cx = elem t [0, 0, m]; cy = elem t [0, 1, m];
                   w = elem t [0, 2, m]; h = elem t [0, 3, m];
                   x1 = rnd (cx - rnd (w / 2)); y1 = rnd (cy - rnd (h / 2))
               in box p = (x1, y1, rnd (cx + rnd (w / 2)), rnd (cy + rnd (h / 2)))
                  \<and> box03 q = [x1, y1, rnd (x1 + w), rnd (y1 + h)])
           \<and> getBestPrediction t = Inr p' \<and> getBestPrediction_03 t = Inr q'
           \<and> (let cx = elem t [0, 0, m]; cy = elem t [0, 1, m];
                   w = elem t [0, 2, m]; h = elem t [0, 3, m];
                   x1 = cx - w / 2; y1 = cy - h / 2; x2 = x1 + w; y2 = y1 + h
               in box p' = (x1, y1, x2, y2) \<and> box03 q' = [x1, y1, x2, y2])"
proof -
  obtain m p q where m: "m < 8400" "\<forall>j < 8400. elem t [0, 4, j] \<le> elem t [0, 4, m]"
    "\<forall>j < m. elem t [0, 4, j] < elem t [0, 4, m]"
    and p: "getBestPrediction_rounded rnd t = Inr p"
      "box p = (rnd (elem t [0, 0, m] - rnd (elem t [0, 2, m] / 2)),
                rnd (elem t [0, 1, m] - rnd (elem t [0, 3, m] / 2)),
                rnd (elem t [0, 0, m] + rnd (elem t [0, 2, m] / 2)),
                rnd (elem t [0, 1, m] + rnd (elem t [0, 3, m] / 2)))"
    and q: "getBestPrediction_03_rounded rnd t = Inr q"
      "box03 q = [rnd (elem t [0, 0, m] - rnd (elem t [0, 2, m] / 2)),
                  rnd (elem t [0, 1, m] - rnd (elem t [0, 3, m] / 2)),
                  rnd (rnd (elem t [0, 0, m] - rnd (elem t [0, 2, m] / 2)) + elem t [0, 2, m]),
                  rnd (rnd (elem t [0, 1, m] - rnd (elem t [0, 3, m] / 2)) + elem t [0, 3, m])]"
    using both_variants_rounded_rank3 [OF assms, of 17 rnd] by auto
  obtain m' p' q' where m': "m' < 8400" "\<forall>j < 8400. elem t [0, 4, j] \<le> elem t [0, 4, m']"
    "\<forall>j < m'. elem t [0, 4, j] < elem t [0, 4, m']"
    and p': "getBestPrediction t = Inr p'"
      "box p' = (elem t [0, 0, m'] - elem t [0, 2, m'] / 2,
                 elem t [0, 1, m'] - elem t [0, 3, m'] / 2,
                 elem t [0, 0, m'] + elem t [0, 2, m'] / 2,
                 elem t [0, 1, m'] + elem t [0, 3, m'] / 2)"
    and q': "getBestPrediction_03 t = Inr q'"
      "box03 q' = [elem t [0, 0, m'] - elem t [0, 2, m'] / 2,
                   elem t [0, 1, m'] - elem t [0, 3, m'] / 2,
                   elem t [0, 0, m'] - elem t [0, 2, m'] / 2 + elem t [0, 2, m'],
                   elem t [0, 1, m'] - elem t [0, 3, m'] / 2 + elem t [0, 3, m']]"
    using both_variants_rank3 [OF assms, of 17] by auto
  have same: "m' = m"
    using first_max_unique [of m' 8400 "\<lambda>j. elem t [0, 4, j]" m] m m' by simp
  have rounded: "let cx = elem t [0, 0, m]; cy = elem t [0, 1, m];
            w = elem t [0, 2, m]; h = elem t [0, 3, m];
            x1 = rnd (cx - rnd (w / 2)); y1 = rnd (cy - rnd (h / 2))
        in box p = (x1, y1, rnd (cx + rnd (w / 2)), rnd (cy + rnd (h / 2)))
           \<and> box03 q = [x1, y1, rnd (x1 + w), rnd (y1 + h)]"
    unfolding Let_def p(2) q(2) by simp
  have exact: "let cx = elem t [0, 0, m]; cy = elem t [0, 1, m];
            w = elem t [0, 2, m]; h = elem t [0, 3, m];
            x1 = cx - w / 2; y1 = cy - h / 2; x2 = x1 + w; y2 = y1 + h
        in box p' = (x1, y1, x2, y2) \<and> box03 q' = [x1, y1, x2, y2]"
    unfolding Let_def p'(2) q'(2) same by simp
  from m p(1) q(1) rounded p'(1) q'(1) exact show ?thesis by blast
qed

text \<open>
  The conversion in float32 at the input whose selected anchor has centre (320, 8),
  width \<open>64 + 2^-15\<close> and height 4: \<open>x1 = 288\<close>; index.ts returns \<open>x2 = 352\<close>, the
  other variant \<open>x2 = 352 + 2^-15\<close>.
\<close>

theorem C4_box_conversion_rounded_witness:
  "shape roundingPredictions = [1, 56, 8400]
   \<and> (\<exists>p q. getBestPrediction_rounded float32 roundingPredictions = Inr p
          \<and> getBestPrediction_03_rounded float32 roundingPredictions = Inr q
          \<and> box p = (288, 6, 352, 10)
          \<and> box03 q = [288, 6, 352 + 1 / 32768, 10])
   \<and> (\<exists>p' q'. getBestPrediction roundingPredictions = Inr p'
          \<and> getBestPrediction_03 roundingPredictions = Inr q'
          \<and> box p' = (320 - (64 + 1 / 32768) / 2, 6, 320 - (64 + 1 / 32768) / 2 + (64 + 1 / 32768), 10)
          \<and> box03 q' = [320 - (64 + 1 / 32768) / 2, 6, 320 - (64 + 1 / 32768) / 2 + (64 + 1 / 32768), 10])"
proof -
  have sh: "shape roundingPredictions = [1, 56, 8400]"
    by (simp add: roundingPredictions_def)
  obtain m p q p' q' where m: "m < 8400"
    "\<forall>j < 8400. elem roundingPredictions [0, 4, j] \<le> elem roundingPredictions [0, 4, m]"
    and pq: "getBestPrediction_rounded float32 roundingPredictions = Inr p"
      "getBestPrediction_03_rounded float32 roundingPredictions = Inr q"
    and bx: "let cx = elem roundingPredictions [0, 0, m]; cy = elem roundingPredictions [0, 1, m];
                 w = elem roundingPredictions [0, 2, m]; h = elem roundingPredictions [0, 3, m];
                 x1 = float32 (cx - float32 (w / 2)); y1 = float32 (cy - float32 (h / 2))
             in box p = (x1, y1, float32 (cx + float32 (w / 2)), float32 (cy + float32 (h / 2)))
                \<and> box03 q = [x1, y1, float32 (x1 + w), float32 (y1 + h)]"
    and pq': "getBestPrediction roundingPredictions = Inr p'"
      "getBestPrediction_03 roundingPredictions = Inr q'"
    and bx': "let cx = elem roundingPredictions [0, 0, m]; cy = elem roundingPredictions [0, 1, m];
                  w = elem roundingPredictions [0, 2, m]; h = elem roundingPredictions [0, 3, m];
                  x1 = cx - w / 2; y1 = cy - h / 2; x2 = x1 + w; y2 = y1 + h
              in box p' = (x1, y1, x2, y2) \<and> box03 q' = [x1, y1, x2, y2]"
    using C4_box_conversion_rounded [OF sh, of float32] by blast
  have m0: "m = 0" using rounding_selected m by blast
  have "box p = (288, 6, 352, 10) \<and> box03 q = [288, 6, 352 + 1 / 32768, 10]"
    using bx unfolding m0
    by (simp add: Let_def roundingPredictions_def float32_half_width float32_x1
        float32_x2_centre float32_x2_corner float32_small)
  moreover have "box p' = (320 - (64 + 1 / 32768) / 2, 6, 320 - (64 + 1 / 32768) / 2 + (64 + 1 / 32768), 10)
      \<and> box03 q' = [320 - (64 + 1 / 32768) / 2, 6, 320 - (64 + 1 / 32768) / 2 + (64 + 1 / 32768), 10]"
    using bx' unfolding m0 by (simp add: Let_def roundingPredictions_def)
  ultimately show ?thesis using sh pq pq' by blast
qed

text \<open>
  C4 as the spec words it, "the selector produces \<open>x2 = x1 + w\<close>" with the variant
  that computes \<open>cx + w/2\<close> "equal to the spec's formula", fails in the float32
  arithmetic of the program: at centre 320 and width \<open>64 + 2^-15\<close> the selector of
  index.ts returns \<open>x1 = 288\<close> and \<open>x2 = 352\<close>, while \<open>x1 + w\<close> is \<open>352 + 2^-15\<close>,
  a float32 value, which the other variant returns.
\<close>

theorem C4_float32_counterexample:
  "elem roundingPredictions [0, 0, 0] = 320
   \<and> elem roundingPredictions [0, 2, 0] = 64 + 1 / 32768
   \<and> getBestPrediction_rounded float32 roundingPredictions =
       Inr \<lparr> box = (288, 6, 352, 10), score = 1, keypoints = replicate 17 (0, 0, 0) \<rparr>
   \<and> getBestPrediction_03_rounded float32 roundingPredictions =
       Inr \<lparr> box03 = [288, 6, 352 + 1 / 32768, 10], score03 = 1,
             keypoints03 = replicate 17 (0, 0, 0) \<rparr>
   \<and> float32 (288 + (64 + 1 / 32768)) = 352 + 1 / 32768
   \<and> (352 :: real) \<noteq> 288 + (64 + 1 / 32768)
   \<and> (352 :: real) \<noteq> float32 (288 + (64 + 1 / 32768))"
  using rounding_best
  by (simp add: roundingPredictions_def float32_x2_corner)

text \<open>
  C5. Coordinate unmapping. For every detection and every transform parameters,
  \<open>scalePrediction\<close> maps each box corner and each keypoint position by
  \<open>coord * scale - offset\<close>, with \<open>xOffset\<close> for x-coordinates and \<open>yOffset\<close> for
  y-coordinates; the detection score and every keypoint confidence are returned as they
  are, the keypoints keep their order and number, and nothing is clamped.
\<close>

theorem C5_scalePrediction_unmaps:
  "scalePrediction \<lparr> box = (x1, y1, x2, y2), score = s, keypoints = kps \<rparr> tp =
     \<lparr> box = (x1 * scale tp - xOffset tp, y1 * scale tp - yOffset tp,
              x2 * scale tp - xOffset tp, y2 * scale tp - yOffset tp),
       score = s,
       keypoints = map (\<lambda>(x, y, confidence).
                          (x * scale tp - xOffset tp, y * scale tp - yOffset tp, confidence)) kps \<rparr>"
  by (simp add: scalePrediction_def transformCoordinate_def)

text \<open>
  C6, as the program behaves. The gate is \<open>score < 0.5\<close>, a strict comparison. A
  detection whose score is strictly below the threshold leaves the canvas as it was:
  no resize, no style change, no drawing call. A detection whose score equals the
  threshold is not below it and is drawn like any detection above it: the canvas is
  cleared, the source is drawn and the box is stroked. Both variants of
  \<open>renderPrediction\<close> agree.
\<close>

theorem C6_gate_strictly_below:
  "(score props < CONFIDENCE_THRESHOLD \<longrightarrow>
      renderPrediction props = rp_canvas props
      \<and> renderPrediction_part_000 props = rp_canvas props)
   \<and> (CONFIDENCE_THRESHOLD \<le> score props \<longrightarrow>
        take (length (calls (rp_canvas props)) + 3) (calls (renderPrediction props))
          = calls (rp_canvas props)
            @ [ClearRect 0 0 (rp_width props) (rp_height props),
               DrawImage (rp_source props) 0 0 (rp_width props) (rp_height props),
               StrokeRect (fst (box props)) (fst (snd (box props)))
                 (fst (snd (snd (box props))) - fst (box props))
                 (snd (snd (snd (box props))) - fst (snd (box props)))]
        \<and> take (length (calls (rp_canvas props)) + 3) (calls (renderPrediction_part_000 props))
          = take (length (calls (rp_canvas props)) + 3) (calls (renderPrediction props)))"
proof (intro conjI impI)
  assume "score props < CONFIDENCE_THRESHOLD"
  then show "renderPrediction props = rp_canvas props"
    by (simp add: renderPrediction_def)
next
  assume "score props < CONFIDENCE_THRESHOLD"
  then show "renderPrediction_part_000 props = rp_canvas props"
    by (simp add: renderPrediction_part_000_def)
next
  assume "CONFIDENCE_THRESHOLD \<le> score props"
  then have ge: "\<not> score props < CONFIDENCE_THRESHOLD" by simp
  obtain x1 y1 x2 y2 where b: "box props = (x1, y1, x2, y2)"
    by (metis prod_cases4)
  show "take (length (calls (rp_canvas props)) + 3) (calls (renderPrediction props))
          = calls (rp_canvas props)
            @ [ClearRect 0 0 (rp_width props) (rp_height props),
               DrawImage (rp_source props) 0 0 (rp_width props) (rp_height props),
               StrokeRect (fst (box props)) (fst (snd (box props)))
                 (fst (snd (snd (box props))) - fst (box props))
                 (snd (snd (snd (box props))) - fst (snd (box props)))]"
    unfolding renderPrediction_calls [OF ge b] by (simp add: b)
next
  assume "CONFIDENCE_THRESHOLD \<le> score props"
  then have ge: "\<not> score props < CONFIDENCE_THRESHOLD" by simp
  obtain x1 y1 x2 y2 where b: "box props = (x1, y1, x2, y2)"
    by (metis prod_cases4)
  show "take (length (calls (rp_canvas props)) + 3) (calls (renderPrediction_part_000 props))
          = take (length (calls (rp_canvas props)) + 3) (calls (renderPrediction props))"
    unfolding renderPrediction_calls [OF ge b] renderPrediction_part_000_calls [OF ge b] ..
qed

text \<open>The gate at the scores 0.49, 0.5 and 0.51.\<close>

theorem C6_gate_strictly_below_witness:
  "(49 / 100 < CONFIDENCE_THRESHOLD
      \<and> renderPrediction (thresholdProps \<lparr> score := 49 / 100 \<rparr>) = rp_canvas thresholdProps
      \<and> renderPrediction_part_000 (thresholdProps \<lparr> score := 49 / 100 \<rparr>) = rp_canvas thresholdProps)
   \<and> (CONFIDENCE_THRESHOLD \<le> score thresholdProps
      \<and> take 3 (calls (renderPrediction thresholdProps))
          = [ClearRect 0 0 400 300,
             DrawImage \<lparr> width = 400, height = 300 \<rparr> 0 0 400 300,
             StrokeRect 180 120 40 60]
      \<and> take 3 (calls (renderPrediction_part_000 thresholdProps))
          = take 3 (calls (renderPrediction thresholdProps)))
   \<and> (CONFIDENCE_THRESHOLD \<le> 51 / 100
      \<and> take 3 (calls (renderPrediction (thresholdProps \<lparr> score := 51 / 100 \<rparr>)))
          = [ClearRect 0 0 400 300,
             DrawImage \<lparr> width = 400, height = 300 \<rparr> 0 0 400 300,
             StrokeRect 180 120 40 60])"
  using C6_gate_strictly_below [of "thresholdProps \<lparr> score := 49 / 100 \<rparr>"]
        C6_gate_strictly_below [of thresholdProps]
        C6_gate_strictly_below [of "thresholdProps \<lparr> score := 51 / 100 \<rparr>"]
  by (simp add: thresholdProps_def CONFIDENCE_THRESHOLD_def)

text \<open>
  C6 as the spec words it, "a detection whose score equals the threshold is treated as
  below threshold and nothing is drawn", fails: at score 0.5 both variants clear the
  canvas, draw the source, stroke the box and mark the keypoint of confidence 0.9.
\<close>

theorem C6_gate_at_equality_counterexample:
  "score thresholdProps = CONFIDENCE_THRESHOLD
   \<and> calls (rp_canvas thresholdProps) = []
   \<and> calls (renderPrediction thresholdProps) =
       [ClearRect 0 0 400 300,
        DrawImage \<lparr> width = 400, height = 300 \<rparr> 0 0 400 300,
        StrokeRect 180 120 40 60,
        BeginPath, Arc 190 130 5 0 (2 * pi), Fill]
   \<and> calls (renderPrediction_part_000 thresholdProps) =
       [ClearRect 0 0 400 300,
        DrawImage \<lparr> width = 400, height = 300 \<rparr> 0 0 400 300,
        StrokeRect 180 120 40 60,
        BeginPath, Arc 190 130 5 0 (2 * pi), Fill]
   \<and> renderPrediction thresholdProps \<noteq> rp_canvas thresholdProps
   \<and> renderPrediction_part_000 thresholdProps \<noteq> rp_canvas thresholdProps"
proof -
  have sc: "score thresholdProps = CONFIDENCE_THRESHOLD"
    by (simp add: thresholdProps_def CONFIDENCE_THRESHOLD_def)
  have c0: "calls (rp_canvas thresholdProps) = []"
    by (simp add: thresholdProps_def)
  have c1: "calls (renderPrediction thresholdProps) =
       [ClearRect 0 0 400 300,
        DrawImage \<lparr> width = 400, height = 300 \<rparr> 0 0 400 300,
        StrokeRect 180 120 40 60,
        BeginPath, Arc 190 130 5 0 (2 * pi), Fill]"
    using renderPrediction_calls [of thresholdProps 180 120 220 180]
    by (simp add: thresholdProps_def CONFIDENCE_THRESHOLD_def)
  have c2: "calls (renderPrediction_part_000 thresholdProps) =
       [ClearRect 0 0 400 300,
        DrawImage \<lparr> width = 400, height = 300 \<rparr> 0 0 400 300,
        StrokeRect 180 120 40 60,
        BeginPath, Arc 190 130 5 0 (2 * pi), Fill]"
    using renderPrediction_part_000_calls [of thresholdProps 180 120 220 180]
    by (simp add: thresholdProps_def CONFIDENCE_THRESHOLD_def)
  have "renderPrediction thresholdProps \<noteq> rp_canvas thresholdProps"
    using c0 c1 by (metis list.distinct(1))
  moreover have "renderPrediction_part_000 thresholdProps \<noteq> rp_canvas thresholdProps"
    using c0 c2 by (metis list.distinct(1))
  ultimately show ?thesis using sc c0 c1 c2 by simp
qed

text \<open>
  C7. Dual-granularity confidence gating. For a detection that passes the detection
  gate, the calls issued are, in order: clear, draw the source, stroke the bounding box
  (always), and then one marker (begin path, arc of radius 5, fill) for each keypoint
  whose own confidence is strictly greater than the threshold, in keypoint order.
  Keypoints of confidence less than or equal to the threshold get no marker. Both
  variants of \<open>renderPrediction\<close> issue the same calls.
\<close>

theorem C7_dual_gating:
  assumes "\<not> score props < CONFIDENCE_THRESHOLD" and "box props = (x1, y1, x2, y2)"
  shows "calls (renderPrediction props) =
           calls (rp_canvas props)
           @ [ClearRect 0 0 (rp_width props) (rp_height props),
              DrawImage (rp_source props) 0 0 (rp_width props) (rp_height props),
              StrokeRect x1 y1 (x2 - x1) (y2 - y1)]
           @ concat (map (\<lambda>(x, y, confidence). [BeginPath, Arc x y 5 0 (2 * pi), Fill])
                       (filter (\<lambda>(x, y, confidence). confidence > CONFIDENCE_THRESHOLD)
                          (keypoints props)))
         \<and> calls (renderPrediction_part_000 props) = calls (renderPrediction props)"
  using renderPrediction_calls [OF assms] renderPrediction_part_000_calls [OF assms] by simp

text \<open>
  A detection at the gate with keypoints of confidence 0.9, 0.5 and 0.2: the box and
  the first keypoint are drawn, the other two keypoints are not.
\<close>

theorem C7_dual_gating_witness:
  "\<not> score thresholdProps < CONFIDENCE_THRESHOLD
   \<and> box thresholdProps = (180, 120, 220, 180)
   \<and> keypoints thresholdProps = [(190, 130, 9 / 10), (200, 150, 1 / 2), (210, 170, 2 / 10)]
   \<and> calls (renderPrediction thresholdProps) =
       [ClearRect 0 0 400 300,
        DrawImage \<lparr> width = 400, height = 300 \<rparr> 0 0 400 300,
        StrokeRect 180 120 40 60,
        BeginPath, Arc 190 130 5 0 (2 * pi), Fill]
   \<and> calls (renderPrediction_part_000 thresholdProps) = calls (renderPrediction thresholdProps)"
  using C7_dual_gating [of thresholdProps 180 120 220 180]
  by (simp add: thresholdProps_def CONFIDENCE_THRESHOLD_def)

text \<open>
  C8, as the program behaves. For a 400 by 300 source and a 640 by 640 model input the
  letterbox has \<open>targetSquareSize = 400\<close>, \<open>xOffset = 0\<close>, top and bottom padding 50 and
  \<open>scale = 400/640 = 0.625\<close>. The raw centre-format box \<open>[320, 320, 64, 96]\<close> becomes the
  corner box \<open>(288, 272, 352, 368)\<close> in model space and unmaps to the source-space box
  \<open>(180, 120, 220, 180)\<close>, which starts at \<open>(180, 120)\<close>. The point \<open>(200, 150)\<close> is the
  unmapped centre of the box.
\<close>

theorem C8_scenario_amended:
  "targetSquareSize \<lparr> width = 400, height = 300 \<rparr> = 400
   \<and> leftPadding \<lparr> width = 400, height = 300 \<rparr> = 0
   \<and> topPadding \<lparr> width = 400, height = 300 \<rparr> = 50
   \<and> bottomPadding \<lparr> width = 400, height = 300 \<rparr> = 50
   \<and> map_sum id transformParams
         (processImageWithLetterboxing \<lparr> width = 400, height = 300 \<rparr> \<lparr> modelHeight = 640, modelWidth = 640 \<rparr>)
       = Inr \<lparr> scale = 400 / 640, xOffset = 0, yOffset = 50, originalWidth = 400, originalHeight = 300 \<rparr>
   \<and> (400 / 640 :: real) = 0.625
   \<and> getBestPrediction scenarioPredictions =
       Inr \<lparr> box = (320 - 64 / 2, 320 - 96 / 2, 320 - 64 / 2 + 64, 320 - 96 / 2 + 96),
             score = 0.9, keypoints = replicate 17 (0, 0, 0) \<rparr>
   \<and> box (scalePrediction
            \<lparr> box = (320 - 64 / 2, 320 - 96 / 2, 320 - 64 / 2 + 64, 320 - 96 / 2 + 96),
              score = 0.9, keypoints = replicate 17 (0, 0, 0) \<rparr>
            \<lparr> scale = 400 / 640, xOffset = 0, yOffset = 50, originalWidth = 400, originalHeight = 300 \<rparr>)
       = (180, 120, 220, 180)
   \<and> transformCoordinate 320 (400 / 640) 0 = 200
   \<and> transformCoordinate 320 (400 / 640) 50 = 150"
  using scenario_best scenario_letterbox
  by (simp add: scalePrediction_def transformCoordinate_def targetSquareSize_def
      leftPadding_div topPadding_div bottomPadding_def totalWidthPadding_def totalHeightPadding_def)

text \<open>
  C8 as the spec words it, "a corner-format source-space box starting at (200, 150)",
  fails: the unmapped box of the scenario starts at \<open>(180, 120)\<close>.
\<close>

theorem C8_scenario_counterexample:
  "processImageWithLetterboxing \<lparr> width = 400, height = 300 \<rparr> \<lparr> modelHeight = 640, modelWidth = 640 \<rparr> =
     Inr \<lparr> processedImage = [1, 640, 640, 3],
           transformParams = \<lparr> scale = 5 / 8, xOffset = 0, yOffset = 50,
                               originalWidth = 400, originalHeight = 300 \<rparr> \<rparr>
   \<and> getBestPrediction scenarioPredictions =
       Inr \<lparr> box = (288, 272, 352, 368), score = 9 / 10, keypoints = replicate 17 (0, 0, 0) \<rparr>
   \<and> box (scalePrediction
            \<lparr> box = (288, 272, 352, 368), score = 9 / 10, keypoints = replicate 17 (0, 0, 0) \<rparr>
            \<lparr> scale = 5 / 8, xOffset = 0, yOffset = 50, originalWidth = 400, originalHeight = 300 \<rparr>)
       = (180, 120, 220, 180)
   \<and> (180 :: real) \<noteq> 200 \<and> (120 :: real) \<noteq> 150"
  using scenario_best scenario_letterbox
  by (simp add: scalePrediction_def transformCoordinate_def)

text \<open>
  C9, as the program behaves. \<open>getBestPrediction\<close> does not check the shape of its
  input. On a tensor of shape \<open>[1, c, a]\<close> with at least 5 channels, a whole number \<open>n\<close>
  of keypoint triplets after them and from 1 to 8400 anchors, whether or not \<open>c\<close> is
  56 and \<open>a\<close> is 8400, it returns without an error the detection of the first anchor
  \<open>m\<close> that reaches the maximal score: its box converted with the rounding \<open>rnd\<close> of
  the tensor operations, its score and its \<open>n\<close> keypoints. With fewer than 5 channels
  a channel slice overflows and tf.js throws.
\<close>

theorem C9_unchecked_shape_selects:
  assumes "shape t = [1, c, a]"
  shows "(5 \<le> c \<and> c - 5 = 3 * n \<and> 0 < a \<and> a \<le> 8400 \<longrightarrow>
            (\<exists>m < a. (\<forall>j < a. elem t [0, 4, j] \<le> elem t [0, 4, m])
               \<and> (\<forall>j < m. elem t [0, 4, j] < elem t [0, 4, m])
               \<and> getBestPrediction_rounded rnd t =
                   Inr \<lparr> box = (rnd (elem t [0, 0, m] - rnd (elem t [0, 2, m] / 2)),
                                rnd (elem t [0, 1, m] - rnd (elem t [0, 3, m] / 2)),
                                rnd (elem t [0, 0, m] + rnd (elem t [0, 2, m] / 2)),
                                rnd (elem t [0, 1, m] + rnd (elem t [0, 3, m] / 2))),
                         score = elem t [0, 4, m],
                         keypoints = map (\<lambda>i. (elem t [0, 5 + 3 * i, m],
                                                elem t [0, 6 + 3 * i, m],
                                                elem t [0, 7 + 3 * i, m])) [0..<n] \<rparr>))
         \<and> (c < 5 \<longrightarrow> getBestPrediction_rounded rnd t = Inl TfAssertionError)"
proof (intro conjI impI)
  assume "5 \<le> c \<and> c - 5 = 3 * n \<and> 0 < a \<and> a \<le> 8400"
  then have "5 \<le> c" "0 < a" "c - 5 = 3 * n" by simp_all
  then show "\<exists>m < a. (\<forall>j < a. elem t [0, 4, j] \<le> elem t [0, 4, m])
               \<and> (\<forall>j < m. elem t [0, 4, j] < elem t [0, 4, m])
               \<and> getBestPrediction_rounded rnd t =
                   Inr \<lparr> box = (rnd (elem t [0, 0, m] - rnd (elem t [0, 2, m] / 2)),
                                rnd (elem t [0, 1, m] - rnd (elem t [0, 3, m] / 2)),
                                rnd (elem t [0, 0, m] + rnd (elem t [0, 2, m] / 2)),
                                rnd (elem t [0, 1, m] + rnd (elem t [0, 3, m] / 2))),
                         score = elem t [0, 4, m],
                         keypoints = map (\<lambda>i. (elem t [0, 5 + 3 * i, m],
                                                elem t [0, 6 + 3 * i, m],
                                                elem t [0, 7 + 3 * i, m])) [0..<n] \<rparr>"
    using getBestPrediction_rounded_rank3 [OF assms] by blast
next
  assume "c < 5"
  then show "getBestPrediction_rounded rnd t = Inl TfAssertionError"
    using getBestPrediction_rounded_few_channels [OF assms] by simp
qed

text \<open>
  A tensor of shape \<open>[1, 8, 3]\<close> yields the detection of its anchor 1, the only one
  with a positive score; a tensor of shape \<open>[1, 4, 3]\<close> makes tf.js throw.
\<close>

theorem C9_unchecked_shape_selects_witness:
  "shape smallPredictions = [1, 8, 3]
   \<and> (5 :: nat) \<le> 8 \<and> (8 :: nat) - 5 = 3 * 1 \<and> (0 :: nat) < 3 \<and> (3 :: nat) \<le> 8400
   \<and> elem smallPredictions [0, 4, 0] = 0 \<and> elem smallPredictions [0, 4, 1] = 1
   \<and> elem smallPredictions [0, 4, 2] = 0
   \<and> getBestPrediction_rounded (\<lambda>x. x) smallPredictions =
       Inr \<lparr> box = (- 19 / 2, - 9 / 2, 23 / 2, 53 / 2), score = 1, keypoints = [(51, 61, 71)] \<rparr>
   \<and> shape narrowPredictions = [1, 4, 3] \<and> (4 :: nat) < 5
   \<and> getBestPrediction_rounded float32 narrowPredictions = Inl TfAssertionError"
proof -
  have sh: "shape smallPredictions = [1, 8, 3]"
    by (simp add: smallPredictions_def)
  have sh': "shape narrowPredictions = [1, 4, 3]"
    by (simp add: narrowPredictions_def)
  have sc: "\<And>j. elem smallPredictions [0, 4, j] = (if j = 1 then 1 else 0)"
    by (simp add: smallPredictions_def)
  obtain m where m: "m < 3"
    "\<forall>j < 3. elem smallPredictions [0, 4, j] \<le> elem smallPredictions [0, 4, m]"
    and eq: "getBestPrediction_rounded (\<lambda>x. x) smallPredictions =
       Inr \<lparr> box = (elem smallPredictions [0, 0, m] - elem smallPredictions [0, 2, m] / 2,
                    elem smallPredictions [0, 1, m] - elem smallPredictions [0, 3, m] / 2,
                    elem smallPredictions [0, 0, m] + elem smallPredictions [0, 2, m] / 2,
                    elem smallPredictions [0, 1, m] + elem smallPredictions [0, 3, m] / 2),
             score = elem smallPredictions [0, 4, m],
             keypoints = map (\<lambda>i. (elem smallPredictions [0, 5 + 3 * i, m],
                                    elem smallPredictions [0, 6 + 3 * i, m],
                                    elem smallPredictions [0, 7 + 3 * i, m])) [0..<1] \<rparr>"
    using C9_unchecked_shape_selects [OF sh, of 1 "\<lambda>x. x"] by auto
  have "elem smallPredictions [0, 4, 1] \<le> elem smallPredictions [0, 4, m]"
    using m(2) by simp
  then have "m = 1"
    unfolding sc by (simp split: if_splits)
  then have small: "getBestPrediction_rounded (\<lambda>x. x) smallPredictions =
       Inr \<lparr> box = (- 19 / 2, - 9 / 2, 23 / 2, 53 / 2), score = 1, keypoints = [(51, 61, 71)] \<rparr>"
    unfolding eq by (simp add: smallPredictions_def)
  have narrow: "getBestPrediction_rounded float32 narrowPredictions = Inl TfAssertionError"
    using C9_unchecked_shape_selects [OF sh', of 0 float32] by simp
  show ?thesis
    using sh sh' small narrow by (simp add: sc)
qed

text \<open>
  C9 as the spec words it, "a shape that does not match \<open>[1, 56, 8400]\<close> fails fast",
  fails: a tensor of shape \<open>[1, 8, 3]\<close> yields the detection of its anchor 1.
\<close>

theorem C9_shape_mismatch_counterexample:
  "shape smallPredictions = [1, 8, 3]
   \<and> shape smallPredictions \<noteq> [1, 56, 8400]
   \<and> getBestPrediction smallPredictions =
       Inr \<lparr> box = (- 19 / 2, - 9 / 2, 23 / 2, 53 / 2), score = 1, keypoints = [(51, 61, 71)] \<rparr>"
  using small_best by (simp add: smallPredictions_def)

text \<open>
  C10. For every raw output tensor of shape \<open>[1, 56, 8400]\<close>, with \<open>m\<close> the selected
  anchor, the box \<open>(x1, y1, x2, y2)\<close> returned by either variant of the selector has
  \<open>x2 - x1\<close> equal to the raw width channel and \<open>y2 - y1\<close> equal to the raw height
  channel of \<open>m\<close>; so \<open>x2 < x1\<close> exactly when the raw width is negative and \<open>y2 < y1\<close>
  exactly when the raw height is negative.
\<close>

theorem C10_box_extent:
  assumes "shape t = [1, 56, 8400]"
  shows "\<exists>m < 8400. \<exists>x1 y1 x2 y2 sc kps sc' kps'.
           (\<forall>j < 8400. elem t [0, 4, j] \<le> elem t [0, 4, m])
           \<and> (\<forall>j < m. elem t [0, 4, j] < elem t [0, 4, m])
           \<and> getBestPrediction t = Inr \<lparr> box = (x1, y1, x2, y2), score = sc, keypoints = kps \<rparr>
           \<and> getBestPrediction_03 t = Inr \<lparr> box03 = [x1, y1, x2, y2], score03 = sc', keypoints03 = kps' \<rparr>
           \<and> x2 - x1 = elem t [0, 2, m] \<and> y2 - y1 = elem t [0, 3, m]
           \<and> (x2 < x1 \<longleftrightarrow> elem t [0, 2, m] < 0)
           \<and> (y2 < y1 \<longleftrightarrow> elem t [0, 3, m] < 0)"
proof -
  obtain m where m: "m < 8400" "\<forall>j < 8400. elem t [0, 4, j] \<le> elem t [0, 4, m]"
    "\<forall>j < m. elem t [0, 4, j] < elem t [0, 4, m]"
    and p: "getBestPrediction t =
                 Inr \<lparr> box = (elem t [0, 0, m] - elem t [0, 2, m] / 2,
                              elem t [0, 1, m] - elem t [0, 3, m] / 2,
                              elem t [0, 0, m] + elem t [0, 2, m] / 2,
                              elem t [0, 1, m] + elem t [0, 3, m] / 2),
                       score = elem t [0, 4, m],
                       keypoints = map (\<lambda>i. (elem t [0, 5 + 3 * i, m],
                                              elem t [0, 6 + 3 * i, m],
                                              elem t [0, 7 + 3 * i, m])) [0..<17] \<rparr>"
    and q: "getBestPrediction_03 t =
                 Inr \<lparr> box03 = [elem t [0, 0, m] - elem t [0, 2, m] / 2,
                                elem t [0, 1, m] - elem t [0, 3, m] / 2,
                                elem t [0, 0, m] - elem t [0, 2, m] / 2 + elem t [0, 2, m],
                                elem t [0, 1, m] - elem t [0, 3, m] / 2 + elem t [0, 3, m]],
                       score03 = elem t [0, 4, m],
                       keypoints03 = map (\<lambda>i. (elem t [0, 5 + 3 * i, m],
                                                elem t [0, 6 + 3 * i, m],
                                                elem t [0, 7 + 3 * i, m])) [0..<17] \<rparr>"
    using both_variants_rank3 [OF assms, of 17] by auto
  define x1 where "x1 = elem t [0, 0, m] - elem t [0, 2, m] / 2"
  define y1 where "y1 = elem t [0, 1, m] - elem t [0, 3, m] / 2"
  define x2 where "x2 = elem t [0, 0, m] + elem t [0, 2, m] / 2"
  define y2 where "y2 = elem t [0, 1, m] + elem t [0, 3, m] / 2"
  have x: "x2 - x1 = elem t [0, 2, m]" and y: "y2 - y1 = elem t [0, 3, m]"
    by (simp_all add: x1_def x2_def y1_def y2_def)
  have x': "x2 = x1 + elem t [0, 2, m]" and y': "y2 = y1 + elem t [0, 3, m]"
    using x y by simp_all
  have dx: "x2 < x1 \<longleftrightarrow> elem t [0, 2, m] < 0" and dy: "y2 < y1 \<longleftrightarrow> elem t [0, 3, m] < 0"
    using x y by linarith+
  have p': "getBestPrediction t = Inr \<lparr> box = (x1, y1, x2, y2), score = elem t [0, 4, m],
      keypoints = map (\<lambda>i. (elem t [0, 5 + 3 * i, m], elem t [0, 6 + 3 * i, m],
                             elem t [0, 7 + 3 * i, m])) [0..<17] \<rparr>"
    unfolding p x1_def y1_def x2_def y2_def ..
  have q': "getBestPrediction_03 t = Inr \<lparr> box03 = [x1, y1, x2, y2], score03 = elem t [0, 4, m],
      keypoints03 = map (\<lambda>i. (elem t [0, 5 + 3 * i, m], elem t [0, 6 + 3 * i, m],
                               elem t [0, 7 + 3 * i, m])) [0..<17] \<rparr>"
    unfolding q x' y' unfolding x1_def y1_def ..
  from m p' q' x y dx dy show ?thesis by blast
qed

text \<open>
  An input whose selected anchor has width \<open>-4\<close> and height 6: the box is degenerate
  in x and not in y.
\<close>

theorem C10_box_extent_witness:
  "shape degeneratePredictions = [1, 56, 8400]
   \<and> (\<exists>x1 y1 x2 y2 sc kps sc' kps'.
         getBestPrediction degeneratePredictions = Inr \<lparr> box = (x1, y1, x2, y2), score = sc, keypoints = kps \<rparr>
         \<and> getBestPrediction_03 degeneratePredictions
             = Inr \<lparr> box03 = [x1, y1, x2, y2], score03 = sc', keypoints03 = kps' \<rparr>
         \<and> x2 - x1 = - 4 \<and> y2 - y1 = 6 \<and> x2 < x1 \<and> \<not> y2 < y1)"
proof -
  have sh: "shape degeneratePredictions = [1, 56, 8400]"
    by (simp add: degeneratePredictions_def)
  obtain m x1 y1 x2 y2 sc kps sc' kps' where m: "m < 8400"
    "\<forall>j < 8400. elem degeneratePredictions [0, 4, j] \<le> elem degeneratePredictions [0, 4, m]"
    and pq: "getBestPrediction degeneratePredictions = Inr \<lparr> box = (x1, y1, x2, y2), score = sc, keypoints = kps \<rparr>"
      "getBestPrediction_03 degeneratePredictions = Inr \<lparr> box03 = [x1, y1, x2, y2], score03 = sc', keypoints03 = kps' \<rparr>"
    and ext: "x2 - x1 = elem degeneratePredictions [0, 2, m]" "y2 - y1 = elem degeneratePredictions [0, 3, m]"
      "x2 < x1 \<longleftrightarrow> elem degeneratePredictions [0, 2, m] < 0"
      "y2 < y1 \<longleftrightarrow> elem degeneratePredictions [0, 3, m] < 0"
    using C10_box_extent [OF sh] by blast
  have "m = 3" using degenerate_selected m by blast
  with ext have "x2 - x1 = - 4 \<and> y2 - y1 = 6 \<and> x2 < x1 \<and> \<not> y2 < y1"
    by (simp add: degeneratePredictions_def)
  with sh pq show ?thesis by blast
qed

end
